theory Spec2Isabelle
  imports Main "HOL-Library.Multiset"
begin

section \<open>Python values and exceptions\<close>

text \<open>
  The notebook \<^verbatim>\<open>notebooks/programs-expanded-comparison.ipynb\<close> works on
  dynamically typed values: what \<^verbatim>\<open>json.load\<close> and \<^verbatim>\<open>pickle.load\<close> return.
  The values modelled are \<^verbatim>\<open>None\<close>, booleans, unbounded integers, strings, lists and
  dictionaries with string keys (an association list in insertion order, as a Python
  dictionary keeps it). Floating-point numbers and objects of other classes are outside
  the model.
\<close>

datatype pyval =
    PNone
  | PBool bool
  | PInt int
  | PStr string
  | PList "pyval list"
  | PDict "(string \<times> pyval) list"

text \<open>
  Exceptions are values. \<open>OtherError\<close> stands for any exception class that the notebook
  never names (an unpickling error, a permission error, ...).
\<close>

datatype exn =
    FileNotFoundError
  | StopIteration
  | EOFError
  | KeyError string
  | TypeError
  | JSONDecodeError
  | OtherError string

text \<open>Sequencing of two computations that may raise: the first exception wins.\<close>

definition andthen :: "exn + 'a \<Rightarrow> ('a \<Rightarrow> exn + 'b) \<Rightarrow> exn + 'b" where
  "andthen m f = (case m of Inl e \<Rightarrow> Inl e | Inr x \<Rightarrow> f x)"

text \<open>A list comprehension \<^verbatim>\<open>[f(x) for x in xs]\<close>: left to right, stopping at the first
  exception.\<close>

fun mapM :: "('a \<Rightarrow> exn + 'b) \<Rightarrow> 'a list \<Rightarrow> exn + 'b list" where
  "mapM f [] = Inr []"
| "mapM f (x # xs) =
     (case f x of
        Inl e \<Rightarrow> Inl e
      | Inr y \<Rightarrow> (case mapM f xs of Inl e \<Rightarrow> Inl e | Inr ys \<Rightarrow> Inr (y # ys)))"

text \<open>\<^verbatim>\<open>obj[key]\<close> with a string key: a dictionary looks the key up and raises
  \<^verbatim>\<open>KeyError\<close> when it is absent; every other value raises \<^verbatim>\<open>TypeError\<close>
  (a list or string wants an integer index, the rest is not subscriptable).\<close>

fun getitem :: "pyval \<Rightarrow> string \<Rightarrow> exn + pyval" where
  "getitem (PDict kvs) k = (case map_of kvs k of None \<Rightarrow> Inl (KeyError k) | Some v \<Rightarrow> Inr v)"
| "getitem PNone k = Inl TypeError"
| "getitem (PBool b) k = Inl TypeError"
| "getitem (PInt i) k = Inl TypeError"
| "getitem (PStr s) k = Inl TypeError"
| "getitem (PList xs) k = Inl TypeError"

text \<open>Iterating a value (\<^verbatim>\<open>zip(result, ...)\<close>, \<^verbatim>\<open>for q in result\<close>): a list yields its
  elements, a dictionary its keys, a string its characters; the rest is not iterable.\<close>

fun py_iter :: "pyval \<Rightarrow> exn + pyval list" where
  "py_iter (PList xs) = Inr xs"
| "py_iter (PDict kvs) = Inr (map (\<lambda>kv. PStr (fst kv)) kvs)"
| "py_iter (PStr s) = Inr (map (\<lambda>c. PStr [c]) s)"
| "py_iter PNone = Inl TypeError"
| "py_iter (PBool b) = Inl TypeError"
| "py_iter (PInt i) = Inl TypeError"

text \<open>Python's \<^verbatim>\<open>==\<close> on these values: booleans are the integers 0 and 1, lists are
  compared element by element, dictionaries as finite maps, values of different kinds
  are unequal.\<close>

fun py_eq :: "pyval \<Rightarrow> pyval \<Rightarrow> bool"
  and py_eq_list :: "pyval list \<Rightarrow> pyval list \<Rightarrow> bool"
  and py_eq_items :: "(string \<times> pyval) list \<Rightarrow> (string \<times> pyval) list \<Rightarrow> bool"
where
  "py_eq PNone y = (y = PNone)"
| "py_eq (PBool a) y =
     (case y of PBool b \<Rightarrow> a = b | PInt j \<Rightarrow> (if a then 1 else 0) = j | _ \<Rightarrow> False)"
| "py_eq (PInt i) y =
     (case y of PBool b \<Rightarrow> i = (if b then 1 else 0) | PInt j \<Rightarrow> i = j | _ \<Rightarrow> False)"
| "py_eq (PStr s) y = (case y of PStr t \<Rightarrow> s = t | _ \<Rightarrow> False)"
| "py_eq (PList xs) y = (case y of PList ys \<Rightarrow> py_eq_list xs ys | _ \<Rightarrow> False)"
| "py_eq (PDict a) y =
     (case y of PDict b \<Rightarrow> length a = length b \<and> py_eq_items a b | _ \<Rightarrow> False)"
| "py_eq_list [] ys = (ys = [])"
| "py_eq_list (x # xs) ys =
     (case ys of [] \<Rightarrow> False | y # ys' \<Rightarrow> py_eq x y \<and> py_eq_list xs ys')"
| "py_eq_items [] b = True"
| "py_eq_items (kv # a) b =
     ((case map_of b (fst kv) of None \<Rightarrow> False | Some w \<Rightarrow> py_eq (snd kv) w)
      \<and> py_eq_items a b)"

text \<open>\<^verbatim>\<open>sum(xs)\<close>: starts from the integer 0 and adds from the left; a boolean counts as
  0 or 1; adding anything else to an integer raises \<^verbatim>\<open>TypeError\<close>.\<close>

fun py_add :: "int \<Rightarrow> pyval \<Rightarrow> exn + int" where
  "py_add acc (PBool b) = Inr (acc + (if b then 1 else 0))"
| "py_add acc (PInt i) = Inr (acc + i)"
| "py_add acc PNone = Inl TypeError"
| "py_add acc (PStr s) = Inl TypeError"
| "py_add acc (PList xs) = Inl TypeError"
| "py_add acc (PDict kvs) = Inl TypeError"

fun py_sum_from :: "int \<Rightarrow> pyval list \<Rightarrow> exn + int" where
  "py_sum_from acc [] = Inr acc"
| "py_sum_from acc (v # vs) =
     (case py_add acc v of Inl e \<Rightarrow> Inl e | Inr acc' \<Rightarrow> py_sum_from acc' vs)"

definition py_sum :: "pyval list \<Rightarrow> exn + int" where
  "py_sum vs = py_sum_from 0 vs"

text \<open>\<^verbatim>\<open>"{}".format(b)\<close> for an integer: its decimal digits, with a minus sign when
  negative.\<close>

fun digits :: "nat \<Rightarrow> string" where
  "digits n =
     (if n < 10 then [char_of (48 + n)]
      else digits (n div 10) @ [char_of (48 + n mod 10)])"

declare digits.simps [simp del]

definition str_int :: "int \<Rightarrow> string" where
  "str_int i = (if i < 0 then CHR ''-'' # digits (nat (- i)) else digits (nat i))"

section \<open>The environment: files and the home directory\<close>

text \<open>
  The notebook reads files at fixed paths. The environment gives the content of each
  file that exists (its characters as \<^verbatim>\<open>open\<close> delivers them: the text of a report or
  baseline file, the bytes of the validation file), and what \<^verbatim>\<open>os.path.expanduser\<close> makes of a path (it depends on the
  user's home directory). \<^verbatim>\<open>open\<close> raises \<^verbatim>\<open>FileNotFoundError\<close> for a path with no file.
\<close>

record env =
  expanduser :: "string \<Rightarrow> string"
  files :: "string \<Rightarrow> string option"

definition open_file :: "env \<Rightarrow> string \<Rightarrow> exn + string" where
  "open_file E p = (case files E p of None \<Rightarrow> Inl FileNotFoundError | Some c \<Rightarrow> Inr c)"

section \<open>The function \<^verbatim>\<open>error\<close> (computeBaselineAgreement)\<close>

text \<open>
  \<^verbatim>\<open>
  def error(b):
      with open(expanduser("~/nearai2/baseline/nearai{}-val.json".format(b))) as f:
          result = json.load(f)
      e = sum([r['output'] == d['code'] for r, d in zip(result, data)])
      a = sum([q['is_correct'] for q in result])
      return e, a
  \<close>
  \<^verbatim>\<open>json.load\<close> is the standard library's decoder; the model takes it as the parameter
  \<open>loads\<close>, from the text of a document to the decoded value or the exception raised.
  \<open>data\<close> is the notebook's global list, filled by cell 5.
\<close>

definition baseline_path :: "int \<Rightarrow> string" where
  "baseline_path b = ''~/nearai2/baseline/nearai'' @ str_int b @ ''-val.json''"

definition exact_flag :: "pyval \<times> pyval \<Rightarrow> exn + pyval" where
  "exact_flag rd =
     andthen (getitem (fst rd) ''output'') (\<lambda>x.
     andthen (getitem (snd rd) ''code'') (\<lambda>y.
     Inr (PBool (py_eq x y))))"

definition error ::
  "(string \<Rightarrow> exn + pyval) \<Rightarrow> env \<Rightarrow> pyval list \<Rightarrow> int \<Rightarrow> exn + int \<times> int" where
  "error loads E data b =
     andthen (open_file E (expanduser E (baseline_path b))) (\<lambda>f.
     andthen (loads f) (\<lambda>result.
     andthen (py_iter result) (\<lambda>rs.
     andthen (mapM exact_flag (zip rs data)) (\<lambda>flags.
     andthen (py_sum flags) (\<lambda>e.
     andthen (mapM (\<lambda>q. getitem q ''is_correct'') rs) (\<lambda>qs.
     andthen (py_sum qs) (\<lambda>a.
     Inr (e, a))))))))"

section \<open>A reference model of the JSON decoder\<close>

text \<open>
  The notebook decodes JSON with the standard library (\<^verbatim>\<open>json.load\<close>, \<^verbatim>\<open>json.loads\<close>).
  Its functions take the decoder as a parameter, so that what is proved of them holds for
  any decoder. For concrete documents the model below decodes the part of JSON the
  notebook's files use: objects, arrays, strings with the one-character escapes, integers,
  \<^verbatim>\<open>true\<close>, \<^verbatim>\<open>false\<close> and \<^verbatim>\<open>null\<close>, with white space between tokens. As in Python, a
  repeated key keeps its first position and its last value, and a malformed document
  raises \<^verbatim>\<open>JSONDecodeError\<close>. Floating-point numbers (a digit followed by a point or an
  exponent mark, \<^verbatim>\<open>NaN\<close>, \<^verbatim>\<open>Infinity\<close>), \<^verbatim>\<open>\u\<close> escapes and characters beyond ASCII are
  outside the model: where the text has one, the model gives no verdict and answers
  \<open>unmodelled\<close>. Nothing below relies on that answer. The standard decoder also gives up
  on containers nested deeper than the interpreter's recursion limit; the model has no
  such limit.
\<close>

definition unmodelled :: exn where
  "unmodelled = OtherError ''outside the decoder model''"

datatype token = TLBrace | TRBrace | TLBrack | TRBrack | TComma | TColon | TAtom pyval

datatype lexstate = LIdle | LStr string | LEsc string | LNum string | LWord string

definition is_ws :: "char \<Rightarrow> bool" where
  "is_ws c = (c = CHR 0x20 \<or> c = CHR 0x09 \<or> c = CHR 0x0A \<or> c = CHR 0x0D)"

definition is_digit :: "char \<Rightarrow> bool" where
  "is_digit c = (48 \<le> (of_char c :: nat) \<and> (of_char c :: nat) \<le> 57)"

definition is_letter :: "char \<Rightarrow> bool" where
  "is_letter c =
     ((65 \<le> (of_char c :: nat) \<and> (of_char c :: nat) \<le> 90)
      \<or> (97 \<le> (of_char c :: nat) \<and> (of_char c :: nat) \<le> 122))"

definition punct :: "char \<Rightarrow> token option" where
  "punct c =
     (if c = CHR ''{'' then Some TLBrace
      else if c = CHR ''}'' then Some TRBrace
      else if c = CHR ''['' then Some TLBrack
      else if c = CHR '']'' then Some TRBrack
      else if c = CHR '','' then Some TComma
      else if c = CHR '':'' then Some TColon
      else None)"

text \<open>The character after a backslash inside a string.\<close>

definition unescape :: "char \<Rightarrow> exn + char" where
  "unescape c =
     (if c = CHR 0x22 then Inr (CHR 0x22)
      else if c = CHR 0x5C then Inr (CHR 0x5C)
      else if c = CHR ''/'' then Inr (CHR ''/'')
      else if c = CHR ''b'' then Inr (CHR 0x08)
      else if c = CHR ''f'' then Inr (CHR 0x0C)
      else if c = CHR ''n'' then Inr (CHR 0x0A)
      else if c = CHR ''r'' then Inr (CHR 0x0D)
      else if c = CHR ''t'' then Inr (CHR 0x09)
      else if c = CHR ''u'' then Inl unmodelled
      else Inl JSONDecodeError)"

definition word_atom :: "string \<Rightarrow> exn + token" where
  "word_atom w =
     (if w = ''true'' then Inr (TAtom (PBool True))
      else if w = ''false'' then Inr (TAtom (PBool False))
      else if w = ''null'' then Inr (TAtom PNone)
      else if w = ''NaN'' \<or> w = ''Infinity'' then Inl unmodelled
      else Inl JSONDecodeError)"

definition nat_literal :: "string \<Rightarrow> exn + int" where
  "nat_literal s =
     (if s = [] \<or> \<not> list_all is_digit s \<or> (hd s = CHR ''0'' \<and> tl s \<noteq> [])
      then Inl JSONDecodeError
      else Inr (int (foldl (\<lambda>n c. 10 * n + (of_char c - 48)) 0 s)))"

definition num_atom :: "string \<Rightarrow> exn + token" where
  "num_atom s =
     (case s of
        [] \<Rightarrow> Inl JSONDecodeError
      | c # r \<Rightarrow>
          if c = CHR ''-'' then andthen (nat_literal r) (\<lambda>n. Inr (TAtom (PInt (- n))))
          else andthen (nat_literal s) (\<lambda>n. Inr (TAtom (PInt n))))"

definition emit :: "exn + token \<Rightarrow> exn + token list \<Rightarrow> exn + token list" where
  "emit t rest = andthen t (\<lambda>x. andthen rest (\<lambda>xs. Inr (x # xs)))"

text \<open>What may follow a number or a word: white space or punctuation. \<open>after_atom\<close> gives
  the tokens that the following character adds.\<close>

definition after_atom :: "char \<Rightarrow> (token list) option" where
  "after_atom c =
     (if is_ws c then Some []
      else case punct c of Some t \<Rightarrow> Some [t] | None \<Rightarrow> None)"

fun lex :: "lexstate \<Rightarrow> string \<Rightarrow> exn + token list" where
  "lex LIdle [] = Inr []"
| "lex LIdle (c # cs) =
     (if is_ws c then lex LIdle cs
      else case punct c of
        Some t \<Rightarrow> emit (Inr t) (lex LIdle cs)
      | None \<Rightarrow>
          if c = CHR 0x22 then lex (LStr []) cs
          else if c = CHR ''-'' \<or> is_digit c then lex (LNum [c]) cs
          else if is_letter c then lex (LWord [c]) cs
          else Inl JSONDecodeError)"
| "lex (LStr acc) [] = Inl JSONDecodeError"
| "lex (LStr acc) (c # cs) =
     (if c = CHR 0x22 then emit (Inr (TAtom (PStr (rev acc)))) (lex LIdle cs)
      else if c = CHR 0x5C then lex (LEsc acc) cs
      else if (of_char c :: nat) < 32 then Inl JSONDecodeError
      else if 127 < (of_char c :: nat) then Inl unmodelled
      else lex (LStr (c # acc)) cs)"
| "lex (LEsc acc) [] = Inl JSONDecodeError"
| "lex (LEsc acc) (c # cs) =
     (case unescape c of Inl e \<Rightarrow> Inl e | Inr d \<Rightarrow> lex (LStr (d # acc)) cs)"
| "lex (LNum acc) [] = emit (num_atom (rev acc)) (Inr [])"
| "lex (LNum acc) (c # cs) =
     (if is_digit c then lex (LNum (c # acc)) cs
      else case after_atom c of
        Some ts \<Rightarrow> emit (num_atom (rev acc)) (andthen (lex LIdle cs) (\<lambda>xs. Inr (ts @ xs)))
      | None \<Rightarrow>
          if c = CHR ''.'' \<or> c = CHR ''e'' \<or> c = CHR ''E'' \<or> c = CHR ''I''
          then Inl unmodelled else Inl JSONDecodeError)"
| "lex (LWord acc) [] = emit (word_atom (rev acc)) (Inr [])"
| "lex (LWord acc) (c # cs) =
     (if is_letter c then lex (LWord (c # acc)) cs
      else case after_atom c of
        Some ts \<Rightarrow> emit (word_atom (rev acc)) (andthen (lex LIdle cs) (\<lambda>xs. Inr (ts @ xs)))
      | None \<Rightarrow> Inl JSONDecodeError)"

text \<open>The parser runs over the tokens with a stack of the containers still open: an
  array with its elements so far (latest first), an object waiting for a key, an object
  waiting for the value of a key.\<close>

datatype frame =
    FArr "pyval list"
  | FObj "(string \<times> pyval) list"
  | FMem "(string \<times> pyval) list" string

datatype mode = MVal | MValOrClose | MKey | MKeyOrClose | MColon | MAfter | MEnd pyval

fun dict_set :: "string \<Rightarrow> pyval \<Rightarrow> (string \<times> pyval) list \<Rightarrow> (string \<times> pyval) list" where
  "dict_set k v [] = [(k, v)]"
| "dict_set k v (p # ps) = (if fst p = k then (k, v) # ps else p # dict_set k v ps)"

fun push_value :: "pyval \<Rightarrow> frame list \<Rightarrow> exn + mode \<times> frame list" where
  "push_value v [] = Inr (MEnd v, [])"
| "push_value v (FArr xs # st) = Inr (MAfter, FArr (v # xs) # st)"
| "push_value v (FMem ms k # st) = Inr (MAfter, FObj (dict_set k v ms) # st)"
| "push_value v (FObj ms # st) = Inl JSONDecodeError"

fun close_arr :: "frame list \<Rightarrow> exn + mode \<times> frame list" where
  "close_arr (FArr xs # st) = push_value (PList (rev xs)) st"
| "close_arr st = Inl JSONDecodeError"

fun close_obj :: "frame list \<Rightarrow> exn + mode \<times> frame list" where
  "close_obj (FObj ms # st) = push_value (PDict ms) st"
| "close_obj st = Inl JSONDecodeError"

fun value_start :: "frame list \<Rightarrow> token \<Rightarrow> exn + mode \<times> frame list" where
  "value_start st (TAtom v) = push_value v st"
| "value_start st TLBrack = Inr (MValOrClose, FArr [] # st)"
| "value_start st TLBrace = Inr (MKeyOrClose, FObj [] # st)"
| "value_start st t = Inl JSONDecodeError"

fun key_start :: "frame list \<Rightarrow> token \<Rightarrow> exn + mode \<times> frame list" where
  "key_start (FObj ms # st) (TAtom (PStr k)) = Inr (MColon, FMem ms k # st)"
| "key_start st t = Inl JSONDecodeError"

fun after_value :: "frame list \<Rightarrow> token \<Rightarrow> exn + mode \<times> frame list" where
  "after_value (FArr xs # st) TComma = Inr (MVal, FArr xs # st)"
| "after_value (FObj ms # st) TComma = Inr (MKey, FObj ms # st)"
| "after_value st TRBrack = close_arr st"
| "after_value st TRBrace = close_obj st"
| "after_value st t = Inl JSONDecodeError"

fun step :: "mode \<Rightarrow> frame list \<Rightarrow> token \<Rightarrow> exn + mode \<times> frame list" where
  "step MVal st t = value_start st t"
| "step MValOrClose st t = (if t = TRBrack then close_arr st else value_start st t)"
| "step MKey st t = key_start st t"
| "step MKeyOrClose st t = (if t = TRBrace then close_obj st else key_start st t)"
| "step MColon st t = (if t = TColon then Inr (MVal, st) else Inl JSONDecodeError)"
| "step MAfter st t = after_value st t"
| "step (MEnd v) st t = Inl JSONDecodeError"

fun parse :: "mode \<Rightarrow> frame list \<Rightarrow> token list \<Rightarrow> exn + pyval" where
  "parse m st [] = (case m of MEnd v \<Rightarrow> Inr v | _ \<Rightarrow> Inl JSONDecodeError)"
| "parse m st (t # ts) =
     (case step m st t of Inl e \<Rightarrow> Inl e | Inr ms \<Rightarrow> parse (fst ms) (snd ms) ts)"

definition json_loads :: "string \<Rightarrow> exn + pyval" where
  "json_loads s = andthen (lex LIdle s) (parse MVal [])"

section \<open>The report loop (loadSummary)\<close>

text \<open>
  \<^verbatim>\<open>
  things = dict(
      b32s25 = "~/nearai2/reports/report-karel-lgrl-ref-1597216250.json",
      b64s25 = "~/nearai2/reports/report-karel-lgrl-ref-1597214305.json",
      b32s100 = "~/nearai2/reports/report-karel-lgrl-ref-1597219437.json",
      b64s100 = "~/nearai2/reports/report-karel-lgrl-ref-1597225355.json"
  )
  for name, path in things.items():
      path = expanduser(path)
      print(name, json.loads(next(open(path))), get_exact_match(path))
  \<close>
  The expression \<^verbatim>\<open>json.loads(next(open(path)))\<close> is the operation the specification
  calls loadSummary. \<^verbatim>\<open>next\<close> on a file opened as text gives its first line with the
  line terminator (\<^verbatim>\<open>\n\<close>, \<^verbatim>\<open>\r\<close> or \<^verbatim>\<open>\r\n\<close>, each read as \<^verbatim>\<open>\n\<close>), and raises
  \<^verbatim>\<open>StopIteration\<close> when the file is empty. \<^verbatim>\<open>get_exact_match\<close> comes from
  \<^verbatim>\<open>program_synthesis.analysis.load_results\<close>, which is not part of the notebook; it is
  the parameter \<open>gem\<close>.
\<close>

definition things :: "(string \<times> string) list" where
  "things =
     [(''b32s25'', ''~/nearai2/reports/report-karel-lgrl-ref-1597216250.json''),
      (''b64s25'', ''~/nearai2/reports/report-karel-lgrl-ref-1597214305.json''),
      (''b32s100'', ''~/nearai2/reports/report-karel-lgrl-ref-1597219437.json''),
      (''b64s100'', ''~/nearai2/reports/report-karel-lgrl-ref-1597225355.json'')]"

fun readline :: "string \<Rightarrow> string" where
  "readline [] = []"
| "readline (c # cs) =
     (if c = CHR 0x0A \<or> c = CHR 0x0D then [CHR 0x0A] else c # readline cs)"

definition next_line :: "string \<Rightarrow> exn + string" where
  "next_line content = (if content = [] then Inl StopIteration else Inr (readline content))"

definition loadSummary :: "(string \<Rightarrow> exn + pyval) \<Rightarrow> env \<Rightarrow> string \<Rightarrow> exn + pyval" where
  "loadSummary loads E path =
     andthen (open_file E path) (\<lambda>f.
     andthen (next_line f) (\<lambda>line.
     loads line))"

text \<open>What the notebook prints, one row for each \<^verbatim>\<open>print\<close>.\<close>

datatype row = ReportRow string pyval pyval | BudgetRow int int int

definition report_row ::
  "(string \<Rightarrow> exn + pyval) \<Rightarrow> (string \<Rightarrow> exn + pyval) \<Rightarrow> env \<Rightarrow> string \<times> string \<Rightarrow> exn + row" where
  "report_row loads gem E np =
     (let path = expanduser E (snd np) in
      andthen (loadSummary loads E path) (\<lambda>summary.
      andthen (gem path) (\<lambda>exact.
      Inr (ReportRow (fst np) summary exact))))"

definition report_loop ::
  "(string \<Rightarrow> exn + pyval) \<Rightarrow> (string \<Rightarrow> exn + pyval) \<Rightarrow> env \<Rightarrow> exn + row list" where
  "report_loop loads gem E = mapM (report_row loads gem E) things"

section \<open>Loading the validation set (loadValidationSet)\<close>

text \<open>
  \<^verbatim>\<open>
  data = []
  with open("../data/karel/val.pkl", "rb") as f:
      try:
          while True:
              data.append(pickle.load(f, encoding='latin-1'))
      except EOFError:
          pass
  \<close>
  \<^verbatim>\<open>pickle.load\<close> is the standard library's; the model takes it as the parameter \<open>pl\<close>:
  from the bytes not yet read to the exception raised, or to the record decoded and the
  bytes left after it. The loop has no exit of its own, so the model is a partial
  function: \<open>None\<close> is a loop that never ends.
\<close>

partial_function (option) load_loop ::
  "(string \<Rightarrow> exn + pyval \<times> string) \<Rightarrow> string \<Rightarrow> pyval list \<Rightarrow> (exn + pyval list) option" where
  "load_loop pl f data =
     (case pl f of
        Inl e \<Rightarrow> (if e = EOFError then Some (Inr data) else Some (Inl e))
      | Inr vr \<Rightarrow> load_loop pl (snd vr) (data @ [fst vr]))"

declare load_loop.simps [code]

definition loadValidationSet ::
  "(string \<Rightarrow> exn + pyval \<times> string) \<Rightarrow> env \<Rightarrow> string \<Rightarrow> (exn + pyval list) option" where
  "loadValidationSet pl E path =
     (case open_file E path of
        Inl e \<Rightarrow> Some (Inl e)
      | Inr f \<Rightarrow> load_loop pl f [])"

definition val_path :: string where
  "val_path = ''../data/karel/val.pkl''"

section \<open>The budget sweep and the whole notebook\<close>

text \<open>
  \<^verbatim>\<open>
  for b in [16, 32, 64, 128, 141, 229, 256, 393, 512, 687]:
      print(b, *error(b))
  \<close>
\<close>

definition budgets :: "int list" where
  "budgets = [16, 32, 64, 128, 141, 229, 256, 393, 512, 687]"

definition budget_row ::
  "(string \<Rightarrow> exn + pyval) \<Rightarrow> env \<Rightarrow> pyval list \<Rightarrow> int \<Rightarrow> exn + row" where
  "budget_row loads E data b =
     andthen (error loads E data b) (\<lambda>ea. Inr (BudgetRow b (fst ea) (snd ea)))"

definition budget_sweep ::
  "(string \<Rightarrow> exn + pyval) \<Rightarrow> env \<Rightarrow> pyval list \<Rightarrow> exn + row list" where
  "budget_sweep loads E data = mapM (budget_row loads E data) budgets"

text \<open>The cells in the notebook's order: the report loop, the load of the validation
  set, the budget sweep. No cell but the load has a \<^verbatim>\<open>try\<close>, so the first exception that
  leaves a cell ends the run; otherwise the run prints all rows.\<close>

definition notebook_run ::
  "(string \<Rightarrow> exn + pyval) \<Rightarrow> (string \<Rightarrow> exn + pyval \<times> string) \<Rightarrow> (string \<Rightarrow> exn + pyval)
     \<Rightarrow> env \<Rightarrow> (exn + row list) option" where
  "notebook_run loads pl gem E =
     (case report_loop loads gem E of
        Inl e \<Rightarrow> Some (Inl e)
      | Inr rows1 \<Rightarrow>
          (case loadValidationSet pl E val_path of
             None \<Rightarrow> None
           | Some (Inl e) \<Rightarrow> Some (Inl e)
           | Some (Inr data) \<Rightarrow>
               (case budget_sweep loads E data of
                  Inl e \<Rightarrow> Some (Inl e)
                | Inr rows2 \<Rightarrow> Some (Inr (rows1 @ rows2)))))"

section \<open>The typed reading of the specification\<close>

text \<open>
  The specification speaks of prediction records with an \<^verbatim>\<open>output\<close> string (the field \<open>output_str\<close>) and an
  \<open>is_correct\<close> flag, and of validation examples with a \<open>code\<close> string. A decoded value
  is such a record when indexing it gives these fields; it may hold other fields too.
\<close>

record prediction =
  output_str :: string
  is_correct :: bool

record example =
  code :: string

definition is_prediction :: "pyval \<Rightarrow> prediction \<Rightarrow> bool" where
  "is_prediction r p \<longleftrightarrow>
     getitem r ''output'' = Inr (PStr (output_str p))
     \<and> getitem r ''is_correct'' = Inr (PBool (is_correct p))"

definition is_example :: "pyval \<Rightarrow> example \<Rightarrow> bool" where
  "is_example d x \<longleftrightarrow> getitem d ''code'' = Inr (PStr (code x))"

text \<open>The result as the specification words it: the number of positions, in the two
  sequences zipped, where the prediction's output is the example's code, and the number
  of predictions flagged correct.\<close>

definition exact_count :: "prediction list \<Rightarrow> example list \<Rightarrow> nat" where
  "exact_count ps xs = length (filter (\<lambda>px. output_str (fst px) = code (snd px)) (zip ps xs))"

definition correct_count :: "prediction list \<Rightarrow> nat" where
  "correct_count ps = length (filter is_correct ps)"

definition computeBaselineAgreement_spec :: "prediction list \<Rightarrow> example list \<Rightarrow> int \<times> int" where
  "computeBaselineAgreement_spec ps xs = (int (exact_count ps xs), int (correct_count ps))"

text \<open>Concrete values and documents for the examples below.\<close>

definition quoted :: "string \<Rightarrow> string" where
  "quoted s = CHR 0x22 # s @ [CHR 0x22]"

definition pred_val :: "string \<Rightarrow> bool \<Rightarrow> pyval" where
  "pred_val out ok = PDict [(''output'', PStr out), (''is_correct'', PBool ok)]"

definition example_val :: "string \<Rightarrow> pyval" where
  "example_val c = PDict [(''code'', PStr c)]"

definition home_expand :: "string \<Rightarrow> string" where
  "home_expand p = (if take 2 p = ''~/'' then ''/home/user'' @ drop 1 p else p)"

definition env_of :: "(string \<times> string) list \<Rightarrow> env" where
  "env_of fs = \<lparr>expanduser = home_expand, files = map_of fs\<rparr>"

definition pred_json :: "string \<Rightarrow> bool \<Rightarrow> string" where
  "pred_json out ok =
     ''{'' @ quoted ''output'' @ '': '' @ quoted out @ '', '' @ quoted ''is_correct'' @ '': ''
       @ (if ok then ''true'' else ''false'') @ ''}''"

definition path16 :: string where
  "path16 = ''/home/user/nearai2/baseline/nearai16-val.json''"

text \<open>A baseline document with two predictions, and the same with the two exchanged.\<close>

definition doc_two :: string where
  "doc_two = ''['' @ pred_json ''move'' True @ '', '' @ pred_json ''turnLeft'' False @ '']''"

definition doc_two_swapped :: string where
  "doc_two_swapped = ''['' @ pred_json ''turnLeft'' False @ '', '' @ pred_json ''move'' True @ '']''"

definition doc_one :: string where
  "doc_one = ''['' @ pred_json ''move'' True @ '']''"

text \<open>The validation set and the baseline of the 915-example scenario: the first 229
  predictions give the example's code, the other 686 do not.\<close>

definition preds_915 :: "prediction list" where
  "preds_915 = replicate 229 \<lparr>output_str = ''move'', is_correct = True\<rparr>
     @ replicate 686 \<lparr>output_str = ''turnLeft'', is_correct = False\<rparr>"

definition examples_915 :: "example list" where
  "examples_915 = replicate 915 \<lparr>code = ''move''\<rparr>"

text \<open>A decoder that gives the same value for every document.\<close>

definition fixed_document :: "pyval \<Rightarrow> string \<Rightarrow> exn + pyval" where
  "fixed_document v s = Inr v"

text \<open>The first line of the report of \<^verbatim>\<open>b32s25\<close>, and the record it stands for.\<close>

definition summary_line :: string where
  "summary_line =
     ''{'' @ quoted ''total'' @ '': 443, '' @ quoted ''correct'' @ '': 134, ''
       @ quoted ''syntax-error'' @ '': 0, '' @ quoted ''runtime-exception'' @ '': 16, ''
       @ quoted ''done'' @ '': true}''"

definition summary_record :: pyval where
  "summary_record =
     PDict [(''total'', PInt 443), (''correct'', PInt 134), (''syntax-error'', PInt 0),
            (''runtime-exception'', PInt 16), (''done'', PBool True)]"

text \<open>\<open>read_n pl n f\<close> applies the record decoder \<open>n\<close> times from \<open>f\<close>: the records in
  order and the bytes left, when each of the \<open>n\<close> calls returns a record.\<close>

fun read_n ::
  "(string \<Rightarrow> exn + pyval \<times> string) \<Rightarrow> nat \<Rightarrow> string \<Rightarrow> (pyval list \<times> string) option" where
  "read_n pl 0 f = Some ([], f)"
| "read_n pl (Suc n) f =
     (case pl f of
        Inl e \<Rightarrow> None
      | Inr vr \<Rightarrow>
          (case read_n pl n (snd vr) of
             None \<Rightarrow> None
           | Some rest \<Rightarrow> Some (fst vr # fst rest, snd rest)))"

text \<open>An example of a record decoder, for the concrete inputs below: each record is the
  text up to a full stop and decodes to an example with that code; at the end of the
  bytes it raises \<^verbatim>\<open>EOFError\<close>, as \<^verbatim>\<open>pickle.load\<close> does, and before an exclamation
  mark it raises another exception.\<close>

definition dot_records :: "string \<Rightarrow> exn + pyval \<times> string" where
  "dot_records s =
     (if s = [] then Inl EOFError
      else if hd s = CHR ''!'' then Inl (OtherError ''invalid load key'')
      else Inr (example_val (takeWhile (\<lambda>c. c \<noteq> CHR ''.'') s),
                drop 1 (dropWhile (\<lambda>c. c \<noteq> CHR ''.'') s)))"

definition no_exact_match :: "string \<Rightarrow> exn + pyval" where
  "no_exact_match p = Inr (PDict [(''exact'', PInt 0), (''total'', PInt 0)])"

definition report_path :: string where
  "report_path = ''/home/user/nearai2/reports/report-karel-lgrl-ref-1597216250.json''"

text \<open>Environments for the concrete inputs below.\<close>

definition other_env :: env where
  "other_env = \<lparr>expanduser = (\<lambda>p. p), files = map_of [(''copy.pkl'', ''ab.cd.''), (path16, doc_one)]\<rparr>"

definition report_path2 :: string where
  "report_path2 = ''/home/user/nearai2/reports/report-karel-lgrl-ref-1597214305.json''"

text \<open>The four reports in place, each with the report line first, and further files.\<close>

definition good_reports :: "(string \<times> string) list" where
  "good_reports = map (\<lambda>np. (home_expand (snd np), summary_line @ CHR 0x0A # ''{}'')) things"

definition reports_env :: "(string \<times> string) list \<Rightarrow> env" where
  "reports_env extra = env_of (good_reports @ extra)"

text \<open>The first report in place and the second with a first line that is not JSON.\<close>

definition bad_report_env :: env where
  "bad_report_env = env_of [(report_path, summary_line), (report_path2, ''not json'')]"

text \<open>The reports in place and: no validation file; a validation file with a bad second
  record; a baseline that is not JSON; the baseline of budget 16 only; baselines of the
  wrong shape (a record without \<^verbatim>\<open>output\<close>, a number instead of a list, a flag that is
  \<^verbatim>\<open>null\<close>).\<close>

definition missing_val_env :: env where
  "missing_val_env = reports_env []"

definition bad_pickle_env :: env where
  "bad_pickle_env = reports_env [(val_path, ''ab.!'')]"

definition bad_baseline_env :: env where
  "bad_baseline_env = reports_env [(val_path, ''ab.cd.''), (path16, ''not json'')]"

definition missing_baseline_env :: env where
  "missing_baseline_env = reports_env [(val_path, ''ab.cd.''), (path16, doc_two)]"

definition doc_no_output :: string where
  "doc_no_output = ''[{'' @ quoted ''is_correct'' @ '': true}]''"

definition doc_null_flag :: string where
  "doc_null_flag =
     ''[{'' @ quoted ''output'' @ '': '' @ quoted ''ab'' @ '', '' @ quoted ''is_correct''
       @ '': null}]''"

definition no_output_env :: env where
  "no_output_env = reports_env [(val_path, ''ab.cd.''), (path16, doc_no_output)]"

definition not_list_env :: env where
  "not_list_env = reports_env [(val_path, ''ab.cd.''), (path16, ''3'')]"

definition null_flag_env :: env where
  "null_flag_env = reports_env [(val_path, ''ab.cd.''), (path16, doc_null_flag)]"

text \<open>A \<^verbatim>\<open>get_exact_match\<close> that raises.\<close>

definition failing_exact_match :: "string \<Rightarrow> exn + pyval" where
  "failing_exact_match p = Inl (OtherError ''no exact match'')"

text \<open>An environment in which every file the notebook reads is there and well formed.\<close>

definition full_env :: env where
  "full_env =
     env_of (map (\<lambda>np. (home_expand (snd np), summary_line @ CHR 0x0A # ''{}'')) things
       @ [(val_path, ''move.turnLeft.x.'')]
       @ map (\<lambda>b. (home_expand (baseline_path b), doc_two)) budgets)"

section \<open>Basic facts\<close>

lemma andthen_Inr [simp]: "andthen (Inr x) f = f x"
  by (simp add: andthen_def)

lemma andthen_Inl [simp]: "andthen (Inl e) f = Inl e"
  by (simp add: andthen_def)

lemma andthen_eq_Inr: "andthen m f = Inr y \<longleftrightarrow> (\<exists>x. m = Inr x \<and> f x = Inr y)"
  by (cases m) simp_all

lemma open_file_Some [simp]: "files E p = Some c \<Longrightarrow> open_file E p = Inr c"
  by (simp add: open_file_def)

lemma open_file_None [simp]: "files E p = None \<Longrightarrow> open_file E p = Inl FileNotFoundError"
  by (simp add: open_file_def)

lemma open_file_eq_Inr: "open_file E p = Inr c \<longleftrightarrow> files E p = Some c"
  by (simp add: open_file_def split: option.splits)

lemma exact_flag_typed:
  "is_prediction r p \<Longrightarrow> is_example d x \<Longrightarrow>
   exact_flag (r, d) = Inr (PBool (output_str p = code x))"
  by (simp add: exact_flag_def is_prediction_def is_example_def)

lemma mapM_exact_typed:
  "list_all2 is_prediction rs ps \<Longrightarrow> list_all2 is_example ds xs \<Longrightarrow>
   mapM exact_flag (zip rs ds) =
     Inr (map (\<lambda>px. PBool (output_str (fst px) = code (snd px))) (zip ps xs))"
proof (induction rs ps arbitrary: ds xs rule: list_all2_induct)
  case Nil
  then show ?case by simp
next
  case (Cons r p rs ps)
  show ?case
  proof (cases ds)
    case Nil
    with Cons.prems show ?thesis by simp
  next
    case (Cons d ds')
    with Cons.prems obtain x xs' where xs: "xs = x # xs'" and dx: "is_example d x"
      and rest: "list_all2 is_example ds' xs'"
      by (auto simp: list_all2_Cons1)
    from Cons.IH [OF rest] exact_flag_typed [OF Cons.hyps(1) dx] show ?thesis
      by (simp add: Cons xs)
  qed
qed

lemma py_sum_from_flags:
  "py_sum_from acc (map (\<lambda>x. PBool (P x)) xs) = Inr (acc + int (length (filter P xs)))"
  by (induction xs arbitrary: acc) simp_all

lemma mapM_is_correct_typed:
  "list_all2 is_prediction rs ps \<Longrightarrow>
   mapM (\<lambda>q. getitem q ''is_correct'') rs = Inr (map (\<lambda>p. PBool (is_correct p)) ps)"
  by (induction rs ps rule: list_all2_induct) (simp_all add: is_prediction_def)

lemma error_typed:
  assumes "files E (expanduser E (baseline_path b)) = Some f"
    and "loads f = Inr (PList rs)"
    and "list_all2 is_prediction rs ps"
    and "list_all2 is_example data xs"
  shows "error loads E data b = Inr (computeBaselineAgreement_spec ps xs)"
  using assms
  by (simp add: error_def mapM_exact_typed mapM_is_correct_typed py_sum_def py_sum_from_flags
      computeBaselineAgreement_spec_def exact_count_def correct_count_def)

lemma error_Inr_iff:
  "error loads E data b = Inr (e, a) \<longleftrightarrow>
     (\<exists>f result rs flags qs.
        files E (expanduser E (baseline_path b)) = Some f \<and> loads f = Inr result
        \<and> py_iter result = Inr rs
        \<and> mapM exact_flag (zip rs data) = Inr flags \<and> py_sum flags = Inr e
        \<and> mapM (\<lambda>q. getitem q ''is_correct'') rs = Inr qs \<and> py_sum qs = Inr a)"
  by (auto simp: error_def andthen_eq_Inr open_file_eq_Inr)

lemma exact_flag_bool: "exact_flag z = Inr v \<Longrightarrow> \<exists>t. v = PBool t"
  by (auto simp: exact_flag_def andthen_eq_Inr)

lemma mapM_length: "mapM g zs = Inr ys \<Longrightarrow> length ys = length zs"
  by (induction zs arbitrary: ys) (auto split: sum.splits)

lemma mapM_exact_bools: "mapM exact_flag zs = Inr flags \<Longrightarrow> \<forall>v\<in>set flags. \<exists>t. v = PBool t"
  by (induction zs arbitrary: flags) (auto split: sum.splits dest: exact_flag_bool)

lemma py_sum_from_bools_bounds:
  "\<forall>v\<in>set flags. \<exists>t. v = PBool t \<Longrightarrow> py_sum_from acc flags = Inr e \<Longrightarrow>
   acc \<le> e \<and> e \<le> acc + int (length flags)"
proof (induction flags arbitrary: acc)
  case Nil
  then show ?case by simp
next
  case (Cons v flags)
  from Cons.prems(1) obtain t where v: "v = PBool t" by auto
  with Cons.prems(2) have "py_sum_from (acc + (if t then 1 else 0)) flags = Inr e" by simp
  with Cons.IH [of "acc + (if t then 1 else 0)"] Cons.prems(1)
  have "acc + (if t then 1 else 0) \<le> e \<and> e \<le> acc + (if t then 1 else 0) + int (length flags)"
    by simp
  then show ?case by (simp split: if_splits)
qed

lemma error_exact_bounds:
  assumes "error loads E data b = Inr (e, a)"
  shows "\<exists>f result rs. files E (expanduser E (baseline_path b)) = Some f \<and> loads f = Inr result
           \<and> py_iter result = Inr rs \<and> 0 \<le> e \<and> e \<le> int (min (length rs) (length data))"
proof -
  from assms obtain f result rs flags where
    f: "files E (expanduser E (baseline_path b)) = Some f" "loads f = Inr result"
      "py_iter result = Inr rs"
    and fl: "mapM exact_flag (zip rs data) = Inr flags" and s: "py_sum flags = Inr e"
    unfolding error_Inr_iff by blast
  from mapM_length [OF fl] have len: "length flags = min (length rs) (length data)" by simp
  from py_sum_from_bools_bounds [OF mapM_exact_bools [OF fl], of 0 e] s
  have "0 \<le> e \<and> e \<le> int (length flags)" by (simp add: py_sum_def)
  with f len show ?thesis by simp
qed

lemma error_correct_independent:
  assumes "error loads E data1 b = Inr (e1, a1)" and "error loads E data2 b = Inr (e2, a2)"
  shows "a1 = a2"
  using assms unfolding error_Inr_iff by auto

section \<open>Evaluating the examples\<close>

lemmas lex_defs = json_loads_def is_ws_def punct_def is_digit_def is_letter_def emit_def
  after_atom_def num_atom_def word_atom_def nat_literal_def unescape_def

lemma json_doc_two:
  "json_loads doc_two = Inr (PList [pred_val ''move'' True, pred_val ''turnLeft'' False])"
  by (simp add: doc_two_def pred_json_def quoted_def pred_val_def lex_defs)

lemma json_doc_two_swapped:
  "json_loads doc_two_swapped = Inr (PList [pred_val ''turnLeft'' False, pred_val ''move'' True])"
  by (simp add: doc_two_swapped_def pred_json_def quoted_def pred_val_def lex_defs)

lemma json_doc_one: "json_loads doc_one = Inr (PList [pred_val ''move'' True])"
  by (simp add: doc_one_def pred_json_def quoted_def pred_val_def lex_defs)

lemma str_int_16: "str_int 16 = ''16''"
  by code_simp

lemma path_16: "expanduser (env_of fs) (baseline_path 16) = path16"
  by (simp add: env_of_def home_expand_def baseline_path_def str_int_16 path16_def)

lemma files_16: "files (env_of [(path16, d)]) (expanduser (env_of [(path16, d)]) (baseline_path 16)) = Some d"
  by (simp add: path_16) (simp add: env_of_def)

lemma is_prediction_pred_val:
  "is_prediction (pred_val out ok) \<lparr>output_str = out, is_correct = ok\<rparr>"
  by (simp add: is_prediction_def pred_val_def)

lemma is_example_example_val: "is_example (example_val c) \<lparr>code = c\<rparr>"
  by (simp add: is_example_def example_val_def)

section \<open>The claims about \<^verbatim>\<open>error\<close>\<close>

text \<open>
  Claim C1. For every budget \<open>b\<close>, \<^verbatim>\<open>error(b)\<close> reads the baseline file of \<open>b\<close>, pairs its
  prediction records with the validation set by position (\<open>zip\<close>, which stops at the
  shorter sequence), and returns the number of pairs whose \<^verbatim>\<open>output\<close> is the example's
  \<^verbatim>\<open>code\<close>, with the number of predictions whose \<^verbatim>\<open>is_correct\<close> is true. The two
  sequences may differ in length.
\<close>

theorem error_computes_agreement:
  assumes "files E (expanduser E (baseline_path b)) = Some f"
    and "loads f = Inr (PList rs)"
    and "list_all2 is_prediction rs ps"
    and "list_all2 is_example data xs"
  shows "error loads E data b =
           Inr (int (length (filter (\<lambda>px. output_str (fst px) = code (snd px)) (zip ps xs))),
                int (length (filter is_correct ps)))"
  using error_typed [of E b f loads rs ps data xs] assms
  by (simp add: computeBaselineAgreement_spec_def exact_count_def correct_count_def)

text \<open>
  Claim C1 at a concrete input: a baseline document of two predictions against three
  validation examples; the third example is never looked at.
\<close>

theorem error_computes_agreement_witness:
  "files (env_of [(path16, doc_two)])
       (expanduser (env_of [(path16, doc_two)]) (baseline_path 16)) = Some doc_two
   \<and> json_loads doc_two = Inr (PList [pred_val ''move'' True, pred_val ''turnLeft'' False])
   \<and> list_all2 is_prediction [pred_val ''move'' True, pred_val ''turnLeft'' False]
        [\<lparr>output_str = ''move'', is_correct = True\<rparr>,
         \<lparr>output_str = ''turnLeft'', is_correct = False\<rparr>]
   \<and> list_all2 is_example
        [example_val ''move'', example_val ''turnRight'', example_val ''putMarker'']
        [\<lparr>code = ''move''\<rparr>, \<lparr>code = ''turnRight''\<rparr>, \<lparr>code = ''putMarker''\<rparr>]
   \<and> error json_loads (env_of [(path16, doc_two)])
        [example_val ''move'', example_val ''turnRight'', example_val ''putMarker''] 16
      = Inr (1, 1)"
proof -
  have h1: "files (env_of [(path16, doc_two)])
       (expanduser (env_of [(path16, doc_two)]) (baseline_path 16)) = Some doc_two"
    by (rule files_16)
  have h2: "json_loads doc_two = Inr (PList [pred_val ''move'' True, pred_val ''turnLeft'' False])"
    by (rule json_doc_two)
  have h3: "list_all2 is_prediction [pred_val ''move'' True, pred_val ''turnLeft'' False]
        [\<lparr>output_str = ''move'', is_correct = True\<rparr>,
         \<lparr>output_str = ''turnLeft'', is_correct = False\<rparr>]"
    by (simp add: is_prediction_pred_val)
  have h4: "list_all2 is_example
        [example_val ''move'', example_val ''turnRight'', example_val ''putMarker'']
        [\<lparr>code = ''move''\<rparr>, \<lparr>code = ''turnRight''\<rparr>, \<lparr>code = ''putMarker''\<rparr>]"
    by (simp add: is_example_example_val)
  from error_computes_agreement [where loads = json_loads and f = doc_two, OF h1 h2 h3 h4]
  have "error json_loads (env_of [(path16, doc_two)])
        [example_val ''move'', example_val ''turnRight'', example_val ''putMarker''] 16
      = Inr (1, 1)"
    by simp
  with h1 h2 h3 h4 show ?thesis by blast
qed

text \<open>
  Claim C2 says that with an empty validation set the result is \<open>(0, 0)\<close> for every
  baseline file. It is not: the second sum runs over the predictions themselves, not over
  the zipped pairs. With one prediction flagged correct the result is \<open>(0, 1)\<close>.
\<close>

theorem empty_validation_counterexample:
  "error json_loads (env_of [(path16, doc_one)]) [] 16 = Inr (0, 1)
   \<and> error json_loads (env_of [(path16, doc_one)]) [] 16 \<noteq> Inr (0, 0)"
  by (simp add: error_def files_16 json_doc_one pred_val_def py_sum_def)

text \<open>
  Claim C2, amended. With an empty validation set, for every baseline file whose records
  carry a boolean \<^verbatim>\<open>is_correct\<close>, the result is \<open>(0, c)\<close> with \<open>c\<close> the number of
  predictions flagged correct (so \<open>(0, 0)\<close> when none is flagged). The records need no
  \<^verbatim>\<open>output\<close>: no pair is formed.
\<close>

theorem empty_validation_result:
  assumes "files E (expanduser E (baseline_path b)) = Some f"
    and "loads f = Inr (PList rs)"
    and "list_all2 (\<lambda>r t. getitem r ''is_correct'' = Inr (PBool t)) rs ts"
  shows "error loads E [] b = Inr (0, int (length (filter (\<lambda>t. t) ts)))"
proof -
  from assms(3) have "mapM (\<lambda>q. getitem q ''is_correct'') rs = Inr (map (\<lambda>t. PBool t) ts)"
    by (induction rs ts rule: list_all2_induct) simp_all
  with assms(1,2) show ?thesis
    by (simp add: error_def py_sum_def py_sum_from_flags)
qed

text \<open>
  The amended claim C2 at a concrete input.
\<close>

theorem empty_validation_result_witness:
  "files (env_of [(path16, doc_two)])
       (expanduser (env_of [(path16, doc_two)]) (baseline_path 16)) = Some doc_two
   \<and> json_loads doc_two = Inr (PList [pred_val ''move'' True, pred_val ''turnLeft'' False])
   \<and> list_all2 (\<lambda>r t. getitem r ''is_correct'' = Inr (PBool t))
        [pred_val ''move'' True, pred_val ''turnLeft'' False] [True, False]
   \<and> error json_loads (env_of [(path16, doc_two)]) [] 16 = Inr (0, 1)"
proof -
  have h1: "files (env_of [(path16, doc_two)])
       (expanduser (env_of [(path16, doc_two)]) (baseline_path 16)) = Some doc_two"
    by (rule files_16)
  have h2: "json_loads doc_two = Inr (PList [pred_val ''move'' True, pred_val ''turnLeft'' False])"
    by (rule json_doc_two)
  have h3: "list_all2 (\<lambda>r t. getitem r ''is_correct'' = Inr (PBool t))
        [pred_val ''move'' True, pred_val ''turnLeft'' False] [True, False]"
    by (simp add: pred_val_def)
  from empty_validation_result [where loads = json_loads and f = doc_two, OF h1 h2 h3]
  have "error json_loads (env_of [(path16, doc_two)]) [] 16 = Inr (0, 1)" by simp
  with h1 h2 h3 show ?thesis by blast
qed

text \<open>
  Claim C6. The result depends on the order of each sequence alone: exchanging the two
  validation examples (baseline fixed) changes it, and exchanging the two predictions of
  the baseline document (validation set fixed) changes it.
\<close>

theorem error_order_sensitive:
  "(\<exists>data data'. mset data' = mset data
      \<and> error json_loads (env_of [(path16, doc_two)]) data' 16
          \<noteq> error json_loads (env_of [(path16, doc_two)]) data 16)
   \<and> (\<exists>rs rs' data. mset rs' = mset rs
      \<and> json_loads doc_two = Inr (PList rs) \<and> json_loads doc_two_swapped = Inr (PList rs')
      \<and> error json_loads (env_of [(path16, doc_two_swapped)]) data 16
          \<noteq> error json_loads (env_of [(path16, doc_two)]) data 16)"
proof (intro conjI)
  let ?d = "[example_val ''move'', example_val ''turnLeft'']"
  let ?d' = "[example_val ''turnLeft'', example_val ''move'']"
  have a: "error json_loads (env_of [(path16, doc_two)]) ?d 16 = Inr (2, 1)"
    by (simp add: error_def files_16 json_doc_two pred_val_def example_val_def py_sum_def
        exact_flag_def)
  have b: "error json_loads (env_of [(path16, doc_two)]) ?d' 16 = Inr (0, 1)"
    by (simp add: error_def files_16 json_doc_two pred_val_def example_val_def py_sum_def
        exact_flag_def)
  have c: "error json_loads (env_of [(path16, doc_two_swapped)]) ?d 16 = Inr (0, 1)"
    by (simp add: error_def files_16 json_doc_two_swapped pred_val_def example_val_def py_sum_def
        exact_flag_def)
  have m: "mset ?d' = mset ?d" by (simp add: add_mset_commute)
  from a b m show "\<exists>data data'. mset data' = mset data
      \<and> error json_loads (env_of [(path16, doc_two)]) data' 16
          \<noteq> error json_loads (env_of [(path16, doc_two)]) data 16"
    by (intro exI [of _ ?d] exI [of _ ?d']) simp
  have m2: "mset [pred_val ''turnLeft'' False, pred_val ''move'' True]
      = mset [pred_val ''move'' True, pred_val ''turnLeft'' False]"
    by (simp add: add_mset_commute)
  from a c m2 json_doc_two json_doc_two_swapped
  show "\<exists>rs rs' data. mset rs' = mset rs
      \<and> json_loads doc_two = Inr (PList rs) \<and> json_loads doc_two_swapped = Inr (PList rs')
      \<and> error json_loads (env_of [(path16, doc_two_swapped)]) data 16
          \<noteq> error json_loads (env_of [(path16, doc_two)]) data 16"
    by (intro exI [of _ "[pred_val ''move'' True, pred_val ''turnLeft'' False]"]
        exI [of _ "[pred_val ''turnLeft'' False, pred_val ''move'' True]"] exI [of _ ?d]) simp
qed

lemma exact_count_card:
  "exact_count ps xs =
     card {i. i < length ps \<and> i < length xs \<and> output_str (ps ! i) = code (xs ! i)}"
proof -
  have "{i. i < length (zip ps xs) \<and> output_str (fst (zip ps xs ! i)) = code (snd (zip ps xs ! i))}
      = {i. i < length ps \<and> i < length xs \<and> output_str (ps ! i) = code (xs ! i)}"
    by auto
  then show ?thesis
    by (simp add: exact_count_def length_filter_conv_card)
qed

lemma list_all2_pred_val:
  "list_all2 is_prediction (map (\<lambda>p. pred_val (output_str p) (is_correct p)) ps) ps"
  by (simp add: list_all2_map1 list_all2_same is_prediction_def pred_val_def)

lemma list_all2_example_val:
  "list_all2 is_example (map (\<lambda>x. example_val (code x)) xs) xs"
  by (simp add: list_all2_map1 list_all2_same is_example_def example_val_def)

lemma exact_count_915: "exact_count preds_915 examples_915 = 229"
proof -
  have e: "examples_915 = replicate 229 \<lparr>code = ''move''\<rparr> @ replicate 686 \<lparr>code = ''move''\<rparr>"
    unfolding examples_915_def by (simp flip: replicate_add)
  have l: "length (replicate 229 \<lparr>output_str = ''move'', is_correct = True\<rparr>)
      = length (replicate 229 \<lparr>code = ''move''\<rparr>)"
    by simp
  show ?thesis
    unfolding exact_count_def preds_915_def e zip_append [OF l]
    by simp
qed

text \<open>
  Claim C7. With a validation set of exactly 915 examples and a baseline of exactly 915
  predictions, of which exactly 229 positions have the prediction's \<^verbatim>\<open>output\<close> equal to the
  example's \<^verbatim>\<open>code\<close>, the first component returned is 229.
\<close>

theorem exact_count_229:
  assumes "files E (expanduser E (baseline_path b)) = Some f"
    and "loads f = Inr (PList rs)"
    and "list_all2 is_prediction rs ps"
    and "list_all2 is_example data xs"
    and "length xs = 915" and "length ps = 915"
    and "card {i. i < 915 \<and> output_str (ps ! i) = code (xs ! i)} = 229"
  shows "\<exists>a. error loads E data b = Inr (229, a)"
proof -
  from assms(5-7) have "exact_count ps xs = 229"
    by (simp add: exact_count_card)
  with error_typed [of E b f loads rs ps data xs] assms(1-4) show ?thesis
    by (simp add: computeBaselineAgreement_spec_def)
qed

text \<open>
  Claim C7 at a concrete input: 229 matching predictions followed by 686 that do not
  match.
\<close>

theorem exact_count_229_witness:
  "files (env_of [(path16, [])]) (expanduser (env_of [(path16, [])]) (baseline_path 16)) = Some []
   \<and> fixed_document (PList (map (\<lambda>p. pred_val (output_str p) (is_correct p)) preds_915)) []
       = Inr (PList (map (\<lambda>p. pred_val (output_str p) (is_correct p)) preds_915))
   \<and> list_all2 is_prediction (map (\<lambda>p. pred_val (output_str p) (is_correct p)) preds_915) preds_915
   \<and> list_all2 is_example (map (\<lambda>x. example_val (code x)) examples_915) examples_915
   \<and> length examples_915 = 915 \<and> length preds_915 = 915
   \<and> card {i. i < 915 \<and> output_str (preds_915 ! i) = code (examples_915 ! i)} = 229
   \<and> (\<exists>a. error (fixed_document (PList (map (\<lambda>p. pred_val (output_str p) (is_correct p)) preds_915)))
            (env_of [(path16, [])]) (map (\<lambda>x. example_val (code x)) examples_915) 16 = Inr (229, a))"
proof -
  let ?rs = "map (\<lambda>p. pred_val (output_str p) (is_correct p)) preds_915"
  let ?data = "map (\<lambda>x. example_val (code x)) examples_915"
  have h1: "files (env_of [(path16, [])]) (expanduser (env_of [(path16, [])]) (baseline_path 16)) = Some []"
    by (rule files_16)
  have h2: "fixed_document (PList ?rs) [] = Inr (PList ?rs)"
    by (simp add: fixed_document_def)
  have h3: "list_all2 is_prediction ?rs preds_915" by (rule list_all2_pred_val)
  have h4: "list_all2 is_example ?data examples_915" by (rule list_all2_example_val)
  have h5: "length examples_915 = 915" by (simp add: examples_915_def)
  have h6: "length preds_915 = 915" by (simp add: preds_915_def)
  have h7: "card {i. i < 915 \<and> output_str (preds_915 ! i) = code (examples_915 ! i)} = 229"
    using exact_count_915 by (simp add: exact_count_card h5 h6)
  from exact_count_229 [where loads = "fixed_document (PList ?rs)" and f = "[]", OF h1 h2 h3 h4 h5 h6 h7]
    h1 h2 h3 h4 h5 h6 h7
  show ?thesis by blast
qed

text \<open>
  Claim C8. The second component depends on the baseline file only: whenever \<^verbatim>\<open>error(b)\<close>
  returns for two validation sets, of any lengths, the second components are the same,
  namely the sum of \<^verbatim>\<open>is_correct\<close> over all predictions of the baseline.
\<close>

theorem correct_count_independent:
  assumes "error loads E data1 b = Inr (e1, a1)" and "error loads E data2 b = Inr (e2, a2)"
  shows "a1 = a2
    \<and> (\<exists>f result rs qs. files E (expanduser E (baseline_path b)) = Some f
          \<and> loads f = Inr result \<and> py_iter result = Inr rs
          \<and> mapM (\<lambda>q. getitem q ''is_correct'') rs = Inr qs \<and> py_sum qs = Inr a1)"
  using assms unfolding error_Inr_iff by auto

lemma error_doc_two_nil: "error json_loads (env_of [(path16, doc_two)]) [] 16 = Inr (0, 1)"
  by (simp add: error_def files_16 json_doc_two pred_val_def py_sum_def)

lemma error_doc_two_three:
  "error json_loads (env_of [(path16, doc_two)])
     [example_val ''move'', example_val ''turnLeft'', example_val ''putMarker''] 16 = Inr (2, 1)"
  by (simp add: error_def files_16 json_doc_two pred_val_def example_val_def py_sum_def
      exact_flag_def)

text \<open>
  Claim C8 at a concrete input: an empty validation set and one of three examples,
  against a baseline of two predictions.
\<close>

theorem correct_count_independent_witness:
  "error json_loads (env_of [(path16, doc_two)]) [] 16 = Inr (0, 1)
   \<and> error json_loads (env_of [(path16, doc_two)])
        [example_val ''move'', example_val ''turnLeft'', example_val ''putMarker''] 16 = Inr (2, 1)
   \<and> (1::int) = 1
   \<and> (\<exists>f result rs qs.
         files (env_of [(path16, doc_two)])
           (expanduser (env_of [(path16, doc_two)]) (baseline_path 16)) = Some f
         \<and> json_loads f = Inr result \<and> py_iter result = Inr rs
         \<and> mapM (\<lambda>q. getitem q ''is_correct'') rs = Inr qs \<and> py_sum qs = Inr 1)"
  using correct_count_independent [OF error_doc_two_nil error_doc_two_three]
    error_doc_two_nil error_doc_two_three
  by blast

text \<open>
  Claim C9. The first component is at most the smaller of the two lengths (and not
  negative), for every validation set and every baseline on which \<^verbatim>\<open>error(b)\<close> returns.
\<close>

theorem exact_count_at_most_min:
  assumes "error loads E data b = Inr (e, a)"
  shows "\<exists>f result rs. files E (expanduser E (baseline_path b)) = Some f \<and> loads f = Inr result
           \<and> py_iter result = Inr rs \<and> 0 \<le> e \<and> e \<le> int (min (length rs) (length data))"
  using assms by (rule error_exact_bounds)

text \<open>
  Claim C9 at a concrete input: two predictions, three examples, two matches.
\<close>

theorem exact_count_at_most_min_witness:
  "error json_loads (env_of [(path16, doc_two)])
        [example_val ''move'', example_val ''turnLeft'', example_val ''putMarker''] 16 = Inr (2, 1)
   \<and> (\<exists>f result rs.
         files (env_of [(path16, doc_two)])
           (expanduser (env_of [(path16, doc_two)]) (baseline_path 16)) = Some f
         \<and> json_loads f = Inr result \<and> py_iter result = Inr rs \<and> (0::int) \<le> 2
         \<and> 2 \<le> int (min (length rs)
              (length [example_val ''move'', example_val ''turnLeft'', example_val ''putMarker''])))"
  using exact_count_at_most_min [OF error_doc_two_three] error_doc_two_three
  by blast

section \<open>The claims about loadSummary\<close>

lemma readline_first:
  "CHR 0x0A \<notin> set l \<Longrightarrow> CHR 0x0D \<notin> set l \<Longrightarrow> readline (l @ CHR 0x0A # rest) = l @ [CHR 0x0A]"
  by (induction l) auto

lemma readline_only:
  "CHR 0x0A \<notin> set l \<Longrightarrow> CHR 0x0D \<notin> set l \<Longrightarrow> readline l = l"
  by (induction l) auto

lemma summary_line_plain: "CHR 0x0A \<notin> set summary_line \<and> CHR 0x0D \<notin> set summary_line"
  by (simp add: summary_line_def quoted_def)

lemma json_summary_line: "json_loads summary_line = Inr summary_record"
  by (simp add: summary_line_def summary_record_def quoted_def lex_defs)

lemma json_summary_line_nl: "json_loads (summary_line @ [CHR 0x0A]) = Inr summary_record"
  by (simp add: summary_line_def summary_record_def quoted_def lex_defs)

lemma loadSummary_first_line:
  assumes "files E p = Some (l @ CHR 0x0A # rest)" and "CHR 0x0A \<notin> set l" and "CHR 0x0D \<notin> set l"
  shows "loadSummary loads E p = loads (l @ [CHR 0x0A])"
  using assms by (simp add: loadSummary_def next_line_def readline_first)

lemma loadSummary_single_line:
  assumes "files E p = Some l" and "l \<noteq> []" and "CHR 0x0A \<notin> set l" and "CHR 0x0D \<notin> set l"
  shows "loadSummary loads E p = loads l"
  using assms by (simp add: loadSummary_def next_line_def readline_only)

lemma summary_line_nonempty: "summary_line \<noteq> []"
  by (simp add: summary_line_def)

text \<open>
  Claim C3. loadSummary reads the first line of the file and decodes that line alone:
  whatever follows the first line terminator has no part in the result, for any decoder.
  For a file whose first line is the report line with \<^verbatim>\<open>total\<close> 443, \<^verbatim>\<open>correct\<close> 134,
  \<^verbatim>\<open>syntax-error\<close> 0, \<^verbatim>\<open>runtime-exception\<close> 16 and \<^verbatim>\<open>done\<close> true, followed by anything
  or by nothing, the result is the record of exactly these five fields.
\<close>

theorem loadSummary_reads_first_line:
  "(files E p = Some (l @ CHR 0x0A # rest) \<and> CHR 0x0A \<notin> set l \<and> CHR 0x0D \<notin> set l
      \<longrightarrow> loadSummary loads E p = loads (l @ [CHR 0x0A]))
   \<and> (files E' p' = Some (summary_line @ CHR 0x0A # rest')
      \<longrightarrow> loadSummary json_loads E' p' = Inr summary_record)
   \<and> (files E'' p'' = Some summary_line
      \<longrightarrow> loadSummary json_loads E'' p'' = Inr summary_record)"
proof (intro conjI impI)
  assume "files E p = Some (l @ CHR 0x0A # rest) \<and> CHR 0x0A \<notin> set l \<and> CHR 0x0D \<notin> set l"
  then show "loadSummary loads E p = loads (l @ [CHR 0x0A])"
    by (simp add: loadSummary_first_line)
next
  assume "files E' p' = Some (summary_line @ CHR 0x0A # rest')"
  then have "loadSummary json_loads E' p' = json_loads (summary_line @ [CHR 0x0A])"
    using summary_line_plain by (simp add: loadSummary_first_line)
  then show "loadSummary json_loads E' p' = Inr summary_record"
    by (simp add: json_summary_line_nl)
next
  assume "files E'' p'' = Some summary_line"
  then have "loadSummary json_loads E'' p'' = json_loads summary_line"
    using summary_line_plain summary_line_nonempty by (simp add: loadSummary_single_line)
  then show "loadSummary json_loads E'' p'' = Inr summary_record"
    by (simp add: json_summary_line)
qed

lemma files_env_of_single: "files (env_of [(p, c)]) p = Some c"
  by (simp add: env_of_def)

text \<open>
  Claim C3 at concrete files: a first line followed by a line that is not JSON, and the
  report line with and without lines after it.
\<close>

theorem loadSummary_reads_first_line_witness:
  "files (env_of [(report_path, ''[1, 2]'' @ CHR 0x0A # ''not json'')]) report_path
       = Some (''[1, 2]'' @ CHR 0x0A # ''not json'')
   \<and> CHR 0x0A \<notin> set ''[1, 2]'' \<and> CHR 0x0D \<notin> set ''[1, 2]''
   \<and> loadSummary json_loads (env_of [(report_path, ''[1, 2]'' @ CHR 0x0A # ''not json'')]) report_path
       = json_loads (''[1, 2]'' @ [CHR 0x0A])
   \<and> files (env_of [(report_path, summary_line @ CHR 0x0A # ''not json'')]) report_path
       = Some (summary_line @ CHR 0x0A # ''not json'')
   \<and> loadSummary json_loads (env_of [(report_path, summary_line @ CHR 0x0A # ''not json'')]) report_path
       = Inr (PDict [(''total'', PInt 443), (''correct'', PInt 134), (''syntax-error'', PInt 0),
            (''runtime-exception'', PInt 16), (''done'', PBool True)])
   \<and> files (env_of [(report_path, summary_line)]) report_path = Some summary_line
   \<and> loadSummary json_loads (env_of [(report_path, summary_line)]) report_path
       = Inr (PDict [(''total'', PInt 443), (''correct'', PInt 134), (''syntax-error'', PInt 0),
            (''runtime-exception'', PInt 16), (''done'', PBool True)])"
proof -
  have h1: "files (env_of [(report_path, ''[1, 2]'' @ CHR 0x0A # ''not json'')]) report_path
       = Some (''[1, 2]'' @ CHR 0x0A # ''not json'')"
    by (rule files_env_of_single)
  have h2: "CHR 0x0A \<notin> set ''[1, 2]'' \<and> CHR 0x0D \<notin> set ''[1, 2]''" by simp
  have h3: "files (env_of [(report_path, summary_line @ CHR 0x0A # ''not json'')]) report_path
       = Some (summary_line @ CHR 0x0A # ''not json'')"
    by (rule files_env_of_single)
  have h4: "files (env_of [(report_path, summary_line)]) report_path = Some summary_line"
    by (rule files_env_of_single)
  from loadSummary_reads_first_line
    [where E = "env_of [(report_path, ''[1, 2]'' @ CHR 0x0A # ''not json'')]" and p = report_path
       and l = "''[1, 2]''" and rest = "''not json''" and loads = json_loads
       and E' = "env_of [(report_path, summary_line @ CHR 0x0A # ''not json'')]" and p' = report_path
       and rest' = "''not json''"
       and E'' = "env_of [(report_path, summary_line)]" and p'' = report_path]
    h1 h2 h3 h4
  show ?thesis unfolding summary_record_def by blast
qed

lemma mapM_member_Inl: "x \<in> set xs \<Longrightarrow> g x = Inl e \<Longrightarrow> \<exists>e'. mapM g xs = Inl e'"
  by (induction xs) (auto split: sum.splits)

lemma loadSummary_empty: "files E p = Some [] \<Longrightarrow> loadSummary loads E p = Inl StopIteration"
  by (simp add: loadSummary_def next_line_def)

lemma loadSummary_decode_error:
  "files E p = Some c \<Longrightarrow> c \<noteq> [] \<Longrightarrow> loads (readline c) = Inl e \<Longrightarrow> loadSummary loads E p = Inl e"
  by (simp add: loadSummary_def next_line_def)

lemma loadSummary_missing: "files E p = None \<Longrightarrow> loadSummary loads E p = Inl FileNotFoundError"
  by (simp add: loadSummary_def)

lemma report_row_Inl:
  "loadSummary loads E (expanduser E (snd np)) = Inl e \<Longrightarrow> report_row loads gem E np = Inl e"
  by (simp add: report_row_def)

lemma run_report_Inl: "report_loop loads gem E = Inl e \<Longrightarrow> notebook_run loads pl gem E = Some (Inl e)"
  by (simp add: notebook_run_def)

lemma run_summary_fails:
  assumes "np \<in> set things" and "loadSummary loads E (expanduser E (snd np)) = Inl e"
  shows "\<exists>e'. notebook_run loads pl gem E = Some (Inl e')"
proof -
  from report_row_Inl [OF assms(2)] have "report_row loads gem E np = Inl e" .
  from mapM_member_Inl [of np things "report_row loads gem E" e, OF assms(1) this]
  obtain e' where "report_loop loads gem E = Inl e'"
    unfolding report_loop_def by blast
  then show ?thesis by (auto dest: run_report_Inl)
qed

lemma run_first_summary_fails:
  assumes "loadSummary loads E (expanduser E (snd (hd things))) = Inl e"
  shows "notebook_run loads pl gem E = Some (Inl e)"
proof -
  have "things = hd things # tl things" by (simp add: things_def)
  then have "report_loop loads gem E = mapM (report_row loads gem E) (hd things # tl things)"
    unfolding report_loop_def by simp
  with report_row_Inl [OF assms] have "report_loop loads gem E = Inl e"
    by (simp del: list.sel)
  then show ?thesis by (rule run_report_Inl)
qed

text \<open>
  Claim C10. When the report file is empty, \<^verbatim>\<open>next\<close> raises \<^verbatim>\<open>StopIteration\<close> and
  loadSummary fails with it whatever the decoder is: the decoder is never asked. A first
  line that does not decode fails with the decoder's \<^verbatim>\<open>JSONDecodeError\<close> instead. Neither
  is caught: for the first report the run ends with that very exception, and for any
  report the run ends with an exception.
\<close>

theorem empty_summary_stops_iteration:
  "(files E p = Some [] \<longrightarrow> loadSummary loads E p = Inl StopIteration)
   \<and> (files E (expanduser E (snd (hd things))) = Some []
        \<longrightarrow> notebook_run loads pl gem E = Some (Inl StopIteration))
   \<and> (files E' (expanduser E' (snd (hd things))) = Some c \<and> c \<noteq> []
        \<and> loads' (readline c) = Inl JSONDecodeError
        \<longrightarrow> notebook_run loads' pl' gem' E' = Some (Inl JSONDecodeError))
   \<and> (np \<in> set things \<and> files E'' (expanduser E'' (snd np)) = Some []
        \<longrightarrow> (\<exists>e. notebook_run loads'' pl'' gem'' E'' = Some (Inl e)))"
proof (intro conjI impI)
  assume "files E p = Some []"
  then show "loadSummary loads E p = Inl StopIteration" by (rule loadSummary_empty)
next
  assume "files E (expanduser E (snd (hd things))) = Some []"
  then have "loadSummary loads E (expanduser E (snd (hd things))) = Inl StopIteration"
    by (rule loadSummary_empty)
  then show "notebook_run loads pl gem E = Some (Inl StopIteration)"
    by (rule run_first_summary_fails)
next
  assume "files E' (expanduser E' (snd (hd things))) = Some c \<and> c \<noteq> []
        \<and> loads' (readline c) = Inl JSONDecodeError"
  then have "loadSummary loads' E' (expanduser E' (snd (hd things))) = Inl JSONDecodeError"
    by (simp add: loadSummary_decode_error)
  then show "notebook_run loads' pl' gem' E' = Some (Inl JSONDecodeError)"
    by (rule run_first_summary_fails)
next
  assume a: "np \<in> set things \<and> files E'' (expanduser E'' (snd np)) = Some []"
  then have "loadSummary loads'' E'' (expanduser E'' (snd np)) = Inl StopIteration"
    by (simp add: loadSummary_empty)
  with a show "\<exists>e. notebook_run loads'' pl'' gem'' E'' = Some (Inl e)"
    by (blast intro: run_summary_fails)
qed

lemma first_report_path: "expanduser (env_of fs) (snd (hd things)) = report_path"
  by (simp add: things_def env_of_def home_expand_def report_path_def)

lemma hd_things_member: "hd things \<in> set things"
  by (simp add: things_def)

lemma json_not_json: "json_loads (readline ''not json'') = Inl JSONDecodeError"
  by (simp add: lex_defs)

text \<open>
  Claim C10 at concrete files: an empty first report, and a first report whose first
  line is not JSON.
\<close>

theorem empty_summary_stops_iteration_witness:
  "files (env_of [(report_path, [])]) report_path = Some []
   \<and> loadSummary json_loads (env_of [(report_path, [])]) report_path = Inl StopIteration
   \<and> files (env_of [(report_path, [])]) (expanduser (env_of [(report_path, [])]) (snd (hd things)))
       = Some []
   \<and> notebook_run json_loads dot_records no_exact_match (env_of [(report_path, [])])
       = Some (Inl StopIteration)
   \<and> files (env_of [(report_path, ''not json'')])
        (expanduser (env_of [(report_path, ''not json'')]) (snd (hd things))) = Some ''not json''
   \<and> ''not json'' \<noteq> [] \<and> json_loads (readline ''not json'') = Inl JSONDecodeError
   \<and> notebook_run json_loads dot_records no_exact_match (env_of [(report_path, ''not json'')])
       = Some (Inl JSONDecodeError)
   \<and> hd things \<in> set things
   \<and> (\<exists>e. notebook_run json_loads dot_records no_exact_match (env_of [(report_path, [])])
         = Some (Inl e))"
proof -
  have h1: "files (env_of [(report_path, [])]) report_path = Some []"
    by (rule files_env_of_single)
  have h2: "files (env_of [(report_path, [])])
      (expanduser (env_of [(report_path, [])]) (snd (hd things))) = Some []"
    by (simp add: first_report_path files_env_of_single)
  have h3: "files (env_of [(report_path, ''not json'')])
        (expanduser (env_of [(report_path, ''not json'')]) (snd (hd things))) = Some ''not json''"
    by (simp add: first_report_path files_env_of_single)
  have h4: "''not json'' \<noteq> []" by simp
  note h5 = json_not_json
  note h6 = hd_things_member
  from empty_summary_stops_iteration
    [where E = "env_of [(report_path, [])]" and p = report_path and loads = json_loads
       and pl = dot_records and gem = no_exact_match
       and E' = "env_of [(report_path, ''not json'')]" and c = "''not json''" and loads' = json_loads
       and pl' = dot_records and gem' = no_exact_match
       and np = "hd things" and E'' = "env_of [(report_path, [])]" and loads'' = json_loads
       and pl'' = dot_records and gem'' = no_exact_match]
    h1 h2 h3 h4 h5 h6
  show ?thesis by blast
qed

section \<open>The claims about loading the validation set and about failures\<close>

lemma load_loop_Inr: "pl f = Inr (v, r) \<Longrightarrow> load_loop pl f acc = load_loop pl r (acc @ [v])"
  by (subst load_loop.simps) simp

lemma load_loop_EOF: "pl f = Inl EOFError \<Longrightarrow> load_loop pl f acc = Some (Inr acc)"
  by (subst load_loop.simps) simp

lemma load_loop_other:
  "pl f = Inl e \<Longrightarrow> e \<noteq> EOFError \<Longrightarrow> load_loop pl f acc = Some (Inl e)"
  by (subst load_loop.simps) simp

lemma load_loop_read_n:
  "read_n pl n f = Some (vs, f') \<Longrightarrow> load_loop pl f acc = load_loop pl f' (acc @ vs)"
proof (induction n arbitrary: f acc vs)
  case 0
  then show ?case by simp
next
  case (Suc n)
  from Suc.prems obtain v r ws where step: "pl f = Inr (v, r)"
    and rest: "read_n pl n r = Some (ws, f')" and vs: "vs = v # ws"
    by (auto split: sum.splits option.splits)
  from load_loop_Inr [of pl f v r acc, OF step] Suc.IH [OF rest] vs show ?case by simp
qed

lemma load_loop_terminates:
  assumes "\<forall>s v r. pl s = Inr (v, r) \<longrightarrow> length r < length s"
  shows "\<exists>res. load_loop pl f acc = Some res"
proof (induction f arbitrary: acc rule: length_induct)
  case (1 f)
  show ?case
  proof (cases "pl f")
    case (Inl e)
    then show ?thesis
      by (cases "e = EOFError") (simp_all add: load_loop_EOF load_loop_other)
  next
    case (Inr vr)
    obtain v r where vr: "vr = (v, r)" by (cases vr)
    with Inr assms have "length r < length f" by blast
    with 1 have "\<exists>res. load_loop pl r (acc @ [v]) = Some res" by blast
    with Inr vr show ?thesis by (simp add: load_loop_Inr)
  qed
qed

lemma loadValidationSet_terminates:
  assumes "\<forall>s v r. pl s = Inr (v, r) \<longrightarrow> length r < length s"
  shows "\<exists>res. loadValidationSet pl E p = Some res"
  using load_loop_terminates [of pl] assms
  by (simp add: loadValidationSet_def open_file_def split: option.splits)

lemma loadValidationSet_content:
  "files E1 p1 = files E2 p2 \<Longrightarrow> loadValidationSet pl E1 p1 = loadValidationSet pl E2 p2"
  by (simp add: loadValidationSet_def open_file_def)

lemma dot_records_consumes:
  "\<forall>s v r. dot_records s = Inr (v, r) \<longrightarrow> length r < length s"
proof (intro allI impI)
  fix s v r
  assume a: "dot_records s = Inr (v, r)"
  then have ne: "s \<noteq> []" and r: "r = drop 1 (dropWhile (\<lambda>c. c \<noteq> CHR ''.'') s)"
    by (auto simp: dot_records_def split: if_splits)
  have "length (dropWhile (\<lambda>c. c \<noteq> CHR ''.'') s) \<le> length s"
    by (rule length_dropWhile_le)
  with ne r show "length r < length s"
    by (cases "dropWhile (\<lambda>c. c \<noteq> CHR ''.'') s") auto
qed

lemma dot_records_two:
  "load_loop dot_records ''ab.cd.'' [] = Some (Inr [example_val ''ab'', example_val ''cd''])"
  by (simp add: load_loop.simps dot_records_def)

text \<open>
  Claim C5. Loading the validation set is a function of the file's content: two loads
  that find the same content (or both find no file) return the same result, the same
  records in the same order, whatever else differs in the environment. The load returns
  for every decoder that consumes at least one byte for each record it returns, as
  \<^verbatim>\<open>pickle.load\<close> does.
\<close>

theorem loadValidationSet_deterministic:
  assumes "\<forall>s v r. pl s = Inr (v, r) \<longrightarrow> length r < length s"
    and "files E1 p1 = files E2 p2"
  shows "\<exists>res. loadValidationSet pl E1 p1 = Some res \<and> loadValidationSet pl E2 p2 = Some res"
  using loadValidationSet_terminates [of pl E1 p1] loadValidationSet_content [of E1 p1 E2 p2 pl] assms
  by auto

text \<open>
  Claim C5 at a concrete input: the same content at two paths of two environments.
\<close>

theorem loadValidationSet_deterministic_witness:
  "files (env_of [(val_path, ''ab.cd.'')]) val_path = files other_env ''copy.pkl''
   \<and> loadValidationSet dot_records (env_of [(val_path, ''ab.cd.'')]) val_path
       = Some (Inr [example_val ''ab'', example_val ''cd''])
   \<and> loadValidationSet dot_records other_env ''copy.pkl''
       = Some (Inr [example_val ''ab'', example_val ''cd''])"
proof -
  have h2: "files (env_of [(val_path, ''ab.cd.'')]) val_path = files other_env ''copy.pkl''"
    by (simp add: env_of_def other_env_def)
  have v: "loadValidationSet dot_records (env_of [(val_path, ''ab.cd.'')]) val_path
       = Some (Inr [example_val ''ab'', example_val ''cd''])"
    by (simp add: loadValidationSet_def files_env_of_single dot_records_two)
  from loadValidationSet_deterministic [where pl = dot_records
      and ?E1.0 = "env_of [(val_path, ''ab.cd.'')]" and ?p1.0 = val_path
      and ?E2.0 = other_env and ?p2.0 = "''copy.pkl''", OF dot_records_consumes h2] v
  have "loadValidationSet dot_records other_env ''copy.pkl''
       = Some (Inr [example_val ''ab'', example_val ''cd''])"
    by auto
  with h2 v show ?thesis by blast
qed

section \<open>Exceptions are not caught\<close>

lemma loadValidationSet_missing:
  "files E p = None \<Longrightarrow> loadValidationSet pl E p = Some (Inl FileNotFoundError)"
  by (simp add: loadValidationSet_def)

lemma load_loop_read_n_EOF:
  assumes "read_n pl n f = Some (vs, f')" and "pl f' = Inl EOFError"
  shows "load_loop pl f [] = Some (Inr vs)"
  using load_loop_read_n [of pl n f vs f' "[]"] load_loop_EOF [of pl f' vs] assms by simp

lemma load_loop_read_n_other:
  assumes "read_n pl n f = Some (vs, f')" and "pl f' = Inl e" and "e \<noteq> EOFError"
  shows "load_loop pl f [] = Some (Inl e)"
  using load_loop_read_n [of pl n f vs f' "[]"] load_loop_other [of pl f' e vs] assms by simp

lemma error_missing:
  "files E (expanduser E (baseline_path b)) = None \<Longrightarrow> error loads E data b = Inl FileNotFoundError"
  by (simp add: error_def)

lemma error_decode_error:
  "files E (expanduser E (baseline_path b)) = Some c \<Longrightarrow> loads c = Inl e \<Longrightarrow>
   error loads E data b = Inl e"
  by (simp add: error_def)

lemma andthen_eq_Inl: "andthen m f = Inl e \<longleftrightarrow> m = Inl e \<or> (\<exists>x. m = Inr x \<and> f x = Inl e)"
  by (cases m) simp_all

lemma open_file_eq_Inl: "open_file E p = Inl e \<longleftrightarrow> files E p = None \<and> e = FileNotFoundError"
  by (auto simp: open_file_def split: option.splits)

lemma mapM_Inl_iff:
  "mapM h zs = Inl x \<longleftrightarrow>
     (\<exists>i<length zs. (\<forall>j<i. \<exists>y. h (zs ! j) = Inr y) \<and> h (zs ! i) = Inl x)"
proof (induction zs)
  case Nil
  then show ?case by simp
next
  case (Cons z zs)
  show ?case
  proof (cases "h z")
    case (Inl e)
    have "(\<exists>i<length (z # zs). (\<forall>j<i. \<exists>y. h ((z # zs) ! j) = Inr y) \<and> h ((z # zs) ! i) = Inl x)
        \<longleftrightarrow> e = x"
    proof
      assume "\<exists>i<length (z # zs). (\<forall>j<i. \<exists>y. h ((z # zs) ! j) = Inr y) \<and> h ((z # zs) ! i) = Inl x"
      then obtain i where i: "\<forall>j<i. \<exists>y. h ((z # zs) ! j) = Inr y" "h ((z # zs) ! i) = Inl x"
        by blast
      show "e = x"
      proof (cases i)
        case 0
        with i(2) Inl show ?thesis by simp
      next
        case (Suc k)
        with i(1) have "\<exists>y. h ((z # zs) ! 0) = Inr y" by blast
        with Inl show ?thesis by simp
      qed
    next
      assume "e = x"
      with Inl have "(\<forall>j<0. \<exists>y. h ((z # zs) ! j) = Inr y) \<and> h ((z # zs) ! 0) = Inl x" by simp
      then show "\<exists>i<length (z # zs). (\<forall>j<i. \<exists>y. h ((z # zs) ! j) = Inr y) \<and> h ((z # zs) ! i) = Inl x"
        by (intro exI [of _ 0]) simp
    qed
    with Inl show ?thesis by simp
  next
    case (Inr y)
    have "(\<exists>i<length (z # zs). (\<forall>j<i. \<exists>y. h ((z # zs) ! j) = Inr y) \<and> h ((z # zs) ! i) = Inl x)
        \<longleftrightarrow> (\<exists>i<length zs. (\<forall>j<i. \<exists>y. h (zs ! j) = Inr y) \<and> h (zs ! i) = Inl x)"
    proof
      assume "\<exists>i<length (z # zs). (\<forall>j<i. \<exists>y. h ((z # zs) ! j) = Inr y) \<and> h ((z # zs) ! i) = Inl x"
      then obtain i where i: "i < length (z # zs)" "\<forall>j<i. \<exists>y. h ((z # zs) ! j) = Inr y"
        "h ((z # zs) ! i) = Inl x"
        by blast
      from i(3) Inr obtain k where k: "i = Suc k" by (cases i) auto
      from i(2) k have "\<forall>j<k. \<exists>y. h (zs ! j) = Inr y" by fastforce
      with i(1,3) k show "\<exists>i<length zs. (\<forall>j<i. \<exists>y. h (zs ! j) = Inr y) \<and> h (zs ! i) = Inl x"
        by auto
    next
      assume "\<exists>i<length zs. (\<forall>j<i. \<exists>y. h (zs ! j) = Inr y) \<and> h (zs ! i) = Inl x"
      then obtain k where k: "k < length zs" "\<forall>j<k. \<exists>y. h (zs ! j) = Inr y" "h (zs ! k) = Inl x"
        by blast
      have "\<forall>j<Suc k. \<exists>y. h ((z # zs) ! j) = Inr y"
      proof (intro allI impI)
        fix j assume "j < Suc k"
        with k(2) Inr show "\<exists>y. h ((z # zs) ! j) = Inr y" by (cases j) auto
      qed
      with k(1,3) show "\<exists>i<length (z # zs). (\<forall>j<i. \<exists>y. h ((z # zs) ! j) = Inr y) \<and> h ((z # zs) ! i) = Inl x"
        by (intro exI [of _ "Suc k"]) simp
    qed
    then have eq: "(\<exists>i<length (z # zs). (\<forall>j<i. \<exists>y. h ((z # zs) ! j) = Inr y) \<and> h ((z # zs) ! i) = Inl x)
        \<longleftrightarrow> mapM h zs = Inl x"
      using Cons.IH by blast
    have "mapM h (z # zs) = Inl x \<longleftrightarrow> mapM h zs = Inl x"
      using Inr by (cases "mapM h zs") simp_all
    with eq show ?thesis by blast
  qed
qed

lemma exact_flag_Inl_iff:
  "exact_flag (r, d) = Inl x \<longleftrightarrow>
     getitem r ''output'' = Inl x
     \<or> ((\<exists>v. getitem r ''output'' = Inr v) \<and> getitem d ''code'' = Inl x)"
  by (auto simp: exact_flag_def andthen_eq_Inl)

lemma py_add_Inl_iff:
  "py_add acc q = Inl x \<longleftrightarrow> x = TypeError \<and> (\<forall>t. q \<noteq> PBool t) \<and> (\<forall>i. q \<noteq> PInt i)"
  by (cases q) auto

lemma py_add_Inr_iff:
  "(\<exists>r. py_add acc q = Inr r) \<longleftrightarrow> (\<exists>t. q = PBool t) \<or> (\<exists>i. q = PInt i)"
  by (cases q) auto

lemma py_sum_from_Inl_iff:
  "py_sum_from acc qs = Inl x \<longleftrightarrow>
     x = TypeError \<and> (\<exists>q\<in>set qs. (\<forall>t. q \<noteq> PBool t) \<and> (\<forall>i. q \<noteq> PInt i))"
proof (induction qs arbitrary: acc)
  case Nil
  then show ?case by simp
next
  case (Cons q qs)
  show ?case
  proof (cases "py_add acc q")
    case (Inl e)
    then have s: "py_sum_from acc (q # qs) = Inl e" by simp
    from Inl have "e = TypeError \<and> (\<forall>t. q \<noteq> PBool t) \<and> (\<forall>i. q \<noteq> PInt i)"
      by (simp add: py_add_Inl_iff)
    with s show ?thesis by auto
  next
    case (Inr r)
    then have "(\<exists>t. q = PBool t) \<or> (\<exists>i. q = PInt i)"
      using py_add_Inr_iff [of acc q] by blast
    with Inr Cons.IH [of r] show ?thesis by auto
  qed
qed

lemma py_sum_Inl_iff:
  "py_sum qs = Inl x \<longleftrightarrow>
     x = TypeError \<and> (\<exists>q\<in>set qs. (\<forall>t. q \<noteq> PBool t) \<and> (\<forall>i. q \<noteq> PInt i))"
  unfolding py_sum_def by (rule py_sum_from_Inl_iff)

lemma py_sum_flags_returns:
  assumes "mapM exact_flag zs = Inr flags"
  shows "\<exists>e. py_sum flags = Inr e"
proof (cases "py_sum flags")
  case (Inl x)
  with mapM_exact_bools [OF assms] show ?thesis
    by (auto simp: py_sum_Inl_iff)
next
  case (Inr e)
  then show ?thesis by blast
qed

lemma loadSummary_Inl_iff:
  "loadSummary loads E p = Inl x \<longleftrightarrow>
     (files E p = None \<and> x = FileNotFoundError)
     \<or> (files E p = Some [] \<and> x = StopIteration)
     \<or> (\<exists>c. files E p = Some c \<and> c \<noteq> [] \<and> loads (readline c) = Inl x)"
  by (cases "files E p") (auto simp: loadSummary_def next_line_def)

lemma report_row_Inl_iff:
  "report_row loads gem E np = Inl x \<longleftrightarrow>
     loadSummary loads E (expanduser E (snd np)) = Inl x
     \<or> ((\<exists>s. loadSummary loads E (expanduser E (snd np)) = Inr s)
         \<and> gem (expanduser E (snd np)) = Inl x)"
  by (auto simp: report_row_def Let_def andthen_eq_Inl)

lemma error_Inl_iff:
  "error loads E data b = Inl x \<longleftrightarrow>
     (files E (expanduser E (baseline_path b)) = None \<and> x = FileNotFoundError)
     \<or> (\<exists>c. files E (expanduser E (baseline_path b)) = Some c
          \<and> (loads c = Inl x
              \<or> (\<exists>result. loads c = Inr result
                   \<and> (py_iter result = Inl x
                       \<or> (\<exists>rs. py_iter result = Inr rs
                            \<and> (mapM exact_flag (zip rs data) = Inl x
                                \<or> ((\<exists>flags. mapM exact_flag (zip rs data) = Inr flags)
                                    \<and> (mapM (\<lambda>q. getitem q ''is_correct'') rs = Inl x
                                        \<or> (\<exists>qs. mapM (\<lambda>q. getitem q ''is_correct'') rs = Inr qs
                                             \<and> py_sum qs = Inl x)))))))))"
proof (cases "files E (expanduser E (baseline_path b))")
  case None
  then show ?thesis by (auto simp: error_def)
next
  case (Some c)
  note c = this
  show ?thesis
  proof (cases "loads c")
    case (Inl e)
    with c show ?thesis by (auto simp: error_def)
  next
    case (Inr result)
    note result = this
    show ?thesis
    proof (cases "py_iter result")
      case (Inl e)
      with c result show ?thesis by (auto simp: error_def)
    next
      case (Inr rs)
      note rs = this
      show ?thesis
      proof (cases "mapM exact_flag (zip rs data)")
        case (Inl e)
        with c result rs show ?thesis by (auto simp: error_def)
      next
        case (Inr flags)
        from py_sum_flags_returns [OF Inr] obtain e where "py_sum flags = Inr e" by blast
        with c result rs Inr show ?thesis
          by (cases "mapM (\<lambda>q. getitem q ''is_correct'') rs")
             (auto simp: error_def andthen_eq_Inl)
      qed
    qed
  qed
qed

lemma loadValidationSet_Inl_iff:
  "loadValidationSet pl E p = Some (Inl x) \<longleftrightarrow>
     (files E p = None \<and> x = FileNotFoundError)
     \<or> (\<exists>c. files E p = Some c \<and> load_loop pl c [] = Some (Inl x))"
  by (cases "files E p") (auto simp: loadValidationSet_def)

lemma budget_row_Inl_iff: "budget_row loads E d b = Inl x \<longleftrightarrow> error loads E d b = Inl x"
  by (auto simp: budget_row_def andthen_eq_Inl)

lemma notebook_run_Inl_iff:
  "notebook_run loads pl gem E = Some (Inl x) \<longleftrightarrow>
     report_loop loads gem E = Inl x
     \<or> ((\<exists>rows. report_loop loads gem E = Inr rows)
         \<and> (loadValidationSet pl E val_path = Some (Inl x)
             \<or> (\<exists>d. loadValidationSet pl E val_path = Some (Inr d)
                  \<and> budget_sweep loads E d = Inl x)))"
  by (auto simp: notebook_run_def split: sum.splits option.splits)

lemma notebook_run_Inr_iff:
  "notebook_run loads pl gem E = Some (Inr rows) \<longleftrightarrow>
     (\<exists>rows1 d rows2. report_loop loads gem E = Inr rows1
        \<and> loadValidationSet pl E val_path = Some (Inr d)
        \<and> budget_sweep loads E d = Inr rows2 \<and> rows = rows1 @ rows2)"
  by (auto simp: notebook_run_def split: sum.splits option.splits)

lemma mapM_Inr_all: "mapM g zs = Inr ys \<Longrightarrow> z \<in> set zs \<Longrightarrow> \<exists>y. g z = Inr y"
  by (induction zs arbitrary: ys) (auto split: sum.splits)

lemma run_row_fails:
  assumes "np \<in> set things" and "report_row loads gem E np = Inl x"
  shows "\<exists>y. notebook_run loads pl gem E = Some (Inl y)"
proof -
  from mapM_member_Inl [of np things "report_row loads gem E" x, OF assms]
  obtain e' where "report_loop loads gem E = Inl e'"
    unfolding report_loop_def by blast
  then show ?thesis by (auto dest: run_report_Inl)
qed

lemma run_load_fails:
  assumes "loadValidationSet pl E val_path = Some (Inl e)"
  shows "\<exists>x. notebook_run loads pl gem E = Some (Inl x)"
  using assms by (cases "report_loop loads gem E") (simp_all add: notebook_run_def)

lemma run_budget_fails:
  assumes "loadValidationSet pl E val_path = Some (Inr d)" and "b \<in> set budgets"
    and "error loads E d b = Inl e"
  shows "\<exists>x. notebook_run loads pl gem E = Some (Inl x)"
proof -
  from assms(3) have "budget_row loads E d b = Inl e" by (simp add: budget_row_def)
  from mapM_member_Inl [of b budgets "budget_row loads E d" e, OF assms(2) this]
  obtain e' where "budget_sweep loads E d = Inl e'"
    unfolding budget_sweep_def by blast
  with assms(1) show ?thesis
    by (cases "report_loop loads gem E") (simp_all add: notebook_run_def)
qed

lemma run_returns_all_steps:
  assumes "notebook_run loads pl gem E = Some (Inr rows)"
  shows "(\<forall>np\<in>set things. \<exists>r. report_row loads gem E np = Inr r)
     \<and> (\<exists>d. loadValidationSet pl E val_path = Some (Inr d)
          \<and> (\<forall>b\<in>set budgets. \<exists>ea. error loads E d b = Inr ea))"
proof -
  from assms obtain rows1 d rows2 where r1: "report_loop loads gem E = Inr rows1"
    and l: "loadValidationSet pl E val_path = Some (Inr d)"
    and r2: "budget_sweep loads E d = Inr rows2"
    unfolding notebook_run_Inr_iff by blast
  have a: "\<forall>np\<in>set things. \<exists>r. report_row loads gem E np = Inr r"
    using r1 unfolding report_loop_def by (blast dest: mapM_Inr_all)
  have "\<forall>b\<in>set budgets. \<exists>r. budget_row loads E d b = Inr r"
    using r2 unfolding budget_sweep_def by (blast dest: mapM_Inr_all)
  then have "\<forall>b\<in>set budgets. \<exists>ea. error loads E d b = Inr ea"
    by (auto simp: budget_row_def andthen_eq_Inr)
  with a l show ?thesis by blast
qed

section \<open>Evaluating runs that fail\<close>

lemma map_of_const_member:
  "x \<in> set xs \<Longrightarrow> map_of (map (\<lambda>y. (k y, c)) xs) (k x) = Some c"
  by (induction xs) auto

lemma reports_env_expand: "expanduser (reports_env extra) p = home_expand p"
  by (simp add: reports_env_def env_of_def)

lemma reports_env_report:
  assumes "np \<in> set things"
  shows "files (reports_env extra) (expanduser (reports_env extra) (snd np))
           = Some (summary_line @ CHR 0x0A # ''{}'')"
proof -
  have "map_of good_reports (home_expand (snd np)) = Some (summary_line @ CHR 0x0A # ''{}'')"
    unfolding good_reports_def
    by (rule map_of_const_member [of np things "\<lambda>np. home_expand (snd np)", OF assms])
  then show ?thesis
    by (simp add: reports_env_def env_of_def map_add_def)
qed

lemma reports_env_other:
  "map_of good_reports p = None \<Longrightarrow> files (reports_env extra) p = map_of extra p"
  by (simp add: reports_env_def env_of_def map_add_def split: option.splits)

lemma good_reports_val: "map_of good_reports val_path = None"
  by (simp add: good_reports_def things_def home_expand_def val_path_def)

lemma good_reports_16: "map_of good_reports path16 = None"
  by (simp add: good_reports_def things_def home_expand_def path16_def)

lemma str_int_32: "str_int 32 = ''32''"
  by code_simp

lemma path_32: "home_expand (baseline_path 32) = ''/home/user/nearai2/baseline/nearai32-val.json''"
  by (simp add: home_expand_def baseline_path_def str_int_32)

lemma path_16_home: "home_expand (baseline_path 16) = path16"
  by (simp add: home_expand_def baseline_path_def str_int_16 path16_def)

lemma good_reports_32: "map_of good_reports (home_expand (baseline_path 32)) = None"
  by (simp add: path_32) (simp add: good_reports_def things_def home_expand_def)

lemma reports_env_val:
  "files (reports_env ((val_path, c) # extra)) val_path = Some c"
  by (simp add: reports_env_other good_reports_val)

lemma reports_env_16:
  "files (reports_env [(val_path, c), (path16, d)])
     (expanduser (reports_env [(val_path, c), (path16, d)]) (baseline_path 16)) = Some d"
  by (simp add: reports_env_expand path_16_home reports_env_other good_reports_16)
     (simp add: path16_def val_path_def)

lemma reports_env_32:
  "files (reports_env [(val_path, c), (path16, d)])
     (expanduser (reports_env [(val_path, c), (path16, d)]) (baseline_path 32)) = None"
  by (simp add: reports_env_expand reports_env_other good_reports_32)
     (simp add: path_32 path16_def val_path_def)

lemma loadSummary_good:
  assumes "files E p = Some (summary_line @ CHR 0x0A # rest)"
  shows "loadSummary json_loads E p = Inr summary_record"
  using loadSummary_first_line [of E p summary_line rest json_loads] assms summary_line_plain
  by (simp add: json_summary_line_nl)

lemma report_row_good:
  assumes "np \<in> set things"
  shows "report_row json_loads no_exact_match (reports_env extra) np
           = Inr (ReportRow (fst np) summary_record (PDict [(''exact'', PInt 0), (''total'', PInt 0)]))"
  using loadSummary_good [OF reports_env_report [OF assms, of extra]]
  by (simp add: report_row_def Let_def no_exact_match_def)

lemma mapM_all_Inr: "(\<And>z. z \<in> set zs \<Longrightarrow> g z = Inr (k z)) \<Longrightarrow> mapM g zs = Inr (map k zs)"
  by (induction zs) simp_all

lemma report_loop_good:
  "report_loop json_loads no_exact_match (reports_env extra)
     = Inr (map (\<lambda>np. ReportRow (fst np) summary_record
                   (PDict [(''exact'', PInt 0), (''total'', PInt 0)])) things)"
  unfolding report_loop_def by (rule mapM_all_Inr) (rule report_row_good)

lemma full_env_reports:
  "full_env = reports_env ([(val_path, ''move.turnLeft.x.'')]
     @ map (\<lambda>b. (home_expand (baseline_path b), doc_two)) budgets)"
  by (simp add: full_env_def reports_env_def good_reports_def)

lemma report_row_gem_fails:
  "report_row json_loads failing_exact_match full_env (hd things)
     = Inl (OtherError ''no exact match'')"
  using loadSummary_good [OF reports_env_report [OF hd_things_member]]
  by (simp add: full_env_reports report_row_def Let_def failing_exact_match_def)

lemma load_missing_val:
  "loadValidationSet dot_records missing_val_env val_path = Some (Inl FileNotFoundError)"
  by (simp add: loadValidationSet_missing missing_val_env_def reports_env_other good_reports_val)

lemma dot_records_bad_stream:
  "load_loop dot_records ''ab.!'' [] = Some (Inl (OtherError ''invalid load key''))"
  by (simp add: load_loop.simps dot_records_def)

lemma load_bad_pickle:
  "loadValidationSet dot_records bad_pickle_env val_path
     = Some (Inl (OtherError ''invalid load key''))"
  by (simp add: loadValidationSet_def bad_pickle_env_def reports_env_val dot_records_bad_stream)

lemma load_two:
  "loadValidationSet dot_records (reports_env ((val_path, ''ab.cd.'') # extra)) val_path
     = Some (Inr [example_val ''ab'', example_val ''cd''])"
  by (simp add: loadValidationSet_def reports_env_val dot_records_two)

lemma json_not_json_whole: "json_loads ''not json'' = Inl JSONDecodeError"
  by (simp add: lex_defs)

lemma json_no_output: "json_loads doc_no_output = Inr (PList [PDict [(''is_correct'', PBool True)]])"
  by (simp add: doc_no_output_def quoted_def lex_defs)

lemma json_three: "json_loads ''3'' = Inr (PInt 3)"
  by (simp add: lex_defs)

lemma json_null_flag:
  "json_loads doc_null_flag = Inr (PList [PDict [(''output'', PStr ''ab''), (''is_correct'', PNone)]])"
  by (simp add: doc_null_flag_def quoted_def lex_defs)

lemma error_bad_baseline:
  "error json_loads bad_baseline_env d 16 = Inl JSONDecodeError"
  by (simp add: error_def bad_baseline_env_def reports_env_16 json_not_json_whole)

lemma error_missing_baseline_16:
  "error json_loads missing_baseline_env [example_val ''ab'', example_val ''cd''] 16 = Inr (0, 1)"
  by (simp add: error_def missing_baseline_env_def reports_env_16 json_doc_two pred_val_def
      example_val_def exact_flag_def py_sum_def)

lemma error_missing_baseline_32:
  "error json_loads missing_baseline_env d 32 = Inl FileNotFoundError"
  by (simp add: error_def missing_baseline_env_def reports_env_32)

lemma error_no_output:
  "error json_loads no_output_env [example_val ''ab'', example_val ''cd''] 16
     = Inl (KeyError ''output'')"
  by (simp add: error_def no_output_env_def reports_env_16 json_no_output exact_flag_def)

lemma error_not_list:
  "error json_loads not_list_env d 16 = Inl TypeError"
  by (simp add: error_def not_list_env_def reports_env_16 json_three)

lemma error_null_flag:
  "error json_loads null_flag_env [example_val ''ab'', example_val ''cd''] 16 = Inl TypeError"
  by (simp add: error_def null_flag_env_def reports_env_16 json_null_flag exact_flag_def
      example_val_def py_sum_def)

lemma error_no_code:
  "error json_loads (env_of [(path16, doc_two)]) [example_val ''move'', PDict []] 16
     = Inl (KeyError ''code'')"
  by (simp add: error_def files_16 json_doc_two pred_val_def example_val_def exact_flag_def)

lemma sweep_first_fails:
  "error loads E d 16 = Inl x \<Longrightarrow> budget_sweep loads E d = Inl x"
  by (simp add: budget_sweep_def budgets_def budget_row_def)

lemma sweep_second_fails:
  "error loads E d 16 = Inr ea \<Longrightarrow> error loads E d 32 = Inl x \<Longrightarrow> budget_sweep loads E d = Inl x"
  by (simp add: budget_sweep_def budgets_def budget_row_def)

lemma bad_report_second_line:
  "loadSummary json_loads bad_report_env report_path2 = Inl JSONDecodeError"
  by (simp add: loadSummary_def next_line_def bad_report_env_def env_of_def report_path_def
      report_path2_def json_not_json_whole)

lemma bad_report_loop:
  "report_loop json_loads no_exact_match bad_report_env = Inl JSONDecodeError"
proof -
  have p1: "expanduser bad_report_env (snd (things ! 0)) = report_path"
    by (simp add: bad_report_env_def env_of_def things_def home_expand_def report_path_def)
  have p2: "expanduser bad_report_env (snd (things ! Suc 0)) = report_path2"
    by (simp add: bad_report_env_def env_of_def things_def home_expand_def report_path2_def)
  have f1: "files bad_report_env report_path = Some summary_line"
    by (simp add: bad_report_env_def env_of_def)
  have r1: "report_row json_loads no_exact_match bad_report_env (things ! 0)
      = Inr (ReportRow ''b32s25'' summary_record (PDict [(''exact'', PInt 0), (''total'', PInt 0)]))"
    using loadSummary_single_line [OF f1 summary_line_nonempty, of json_loads] summary_line_plain
    by (simp add: report_row_def Let_def p1 json_summary_line no_exact_match_def)
       (simp add: things_def)
  have r2: "report_row json_loads no_exact_match bad_report_env (things ! Suc 0) = Inl JSONDecodeError"
    by (simp add: report_row_def Let_def p2 bad_report_second_line)
  have "things = things ! 0 # things ! Suc 0 # drop 2 things"
    by (simp add: things_def)
  then have "report_loop json_loads no_exact_match bad_report_env
      = mapM (report_row json_loads no_exact_match bad_report_env)
          (things ! 0 # things ! Suc 0 # drop 2 things)"
    unfolding report_loop_def by simp
  with r1 r2 show ?thesis by simp
qed

section \<open>A complete run\<close>

text \<open>
  With every file in place the run ends normally, after one row for each report and one
  for each budget: the exceptions above are the only way it ends early.
\<close>

lemma notebook_run_full_env:
  "notebook_run json_loads dot_records no_exact_match full_env =
     Some (Inr (map (\<lambda>np. ReportRow (fst np) summary_record
                        (PDict [(''exact'', PInt 0), (''total'', PInt 0)])) things
                @ map (\<lambda>b. BudgetRow b 2 1) budgets))"
  by code_simp

text \<open>
  Claim C4. The one exception the notebook handles is \<^verbatim>\<open>EOFError\<close> in the load of the
  validation set: when the decoder raises it after some records, the load ends normally
  with those records. Nothing else is caught. Any other exception of the decoder ends the
  load with that exception. Each operation raises exactly the exception of its first step
  that raises: loadSummary for a missing file, an empty file or a first line that does not
  decode; a report row for loadSummary or \<^verbatim>\<open>get_exact_match\<close>; \<^verbatim>\<open>error\<close> for a missing
  baseline, a baseline that does not decode, a decoded value that is not a sequence, a
  record or example without the key asked for, or a flag that cannot be added; a list
  comprehension for its first element that raises. The run ends with the exception of
  the first cell that raises, so a failure of any report row, of the load, or of
  \<^verbatim>\<open>error\<close> for any budget ends the run with an exception; a run that ends normally has
  had every step return.
\<close>

theorem only_end_of_stream_is_handled:
  "(read_n pl n f = Some (vs, f') \<and> pl f' = Inl EOFError
      \<longrightarrow> load_loop pl f [] = Some (Inr vs))
   \<and> (read_n pl m g = Some (ws, g') \<and> pl g' = Inl e \<and> e \<noteq> EOFError
      \<longrightarrow> load_loop pl g [] = Some (Inl e))
   \<and> (loadValidationSet pl Ev pv = Some (Inl xv) \<longleftrightarrow>
        (files Ev pv = None \<and> xv = FileNotFoundError)
        \<or> (\<exists>c. files Ev pv = Some c \<and> load_loop pl c [] = Some (Inl xv)))
   \<and> (loadSummary loads Es ps = Inl xs \<longleftrightarrow>
        (files Es ps = None \<and> xs = FileNotFoundError)
        \<or> (files Es ps = Some [] \<and> xs = StopIteration)
        \<or> (\<exists>c. files Es ps = Some c \<and> c \<noteq> [] \<and> loads (readline c) = Inl xs))
   \<and> (report_row loads gemr Er npr = Inl xr \<longleftrightarrow>
        loadSummary loads Er (expanduser Er (snd npr)) = Inl xr
        \<or> ((\<exists>s. loadSummary loads Er (expanduser Er (snd npr)) = Inr s)
            \<and> gemr (expanduser Er (snd npr)) = Inl xr))
   \<and> (error loads Ee data be = Inl xe \<longleftrightarrow>
        (files Ee (expanduser Ee (baseline_path be)) = None \<and> xe = FileNotFoundError)
        \<or> (\<exists>c. files Ee (expanduser Ee (baseline_path be)) = Some c
             \<and> (loads c = Inl xe
                 \<or> (\<exists>result. loads c = Inr result
                      \<and> (py_iter result = Inl xe
                          \<or> (\<exists>rs. py_iter result = Inr rs
                               \<and> (mapM exact_flag (zip rs data) = Inl xe
                                   \<or> ((\<exists>flags. mapM exact_flag (zip rs data) = Inr flags)
                                       \<and> (mapM (\<lambda>q. getitem q ''is_correct'') rs = Inl xe
                                           \<or> (\<exists>qs. mapM (\<lambda>q. getitem q ''is_correct'') rs = Inr qs
                                                \<and> py_sum qs = Inl xe))))))))))
   \<and> (mapM h zs = Inl xz \<longleftrightarrow>
        (\<exists>i<length zs. (\<forall>j<i. \<exists>y. h (zs ! j) = Inr y) \<and> h (zs ! i) = Inl xz))
   \<and> (exact_flag (r, d) = Inl xf \<longleftrightarrow>
        getitem r ''output'' = Inl xf
        \<or> ((\<exists>v. getitem r ''output'' = Inr v) \<and> getitem d ''code'' = Inl xf))
   \<and> (py_sum qs = Inl xq \<longleftrightarrow>
        xq = TypeError \<and> (\<exists>q\<in>set qs. (\<forall>t. q \<noteq> PBool t) \<and> (\<forall>i. q \<noteq> PInt i)))
   \<and> (budget_row loads Eb db bb = Inl xb \<longleftrightarrow> error loads Eb db bb = Inl xb)
   \<and> (notebook_run loads pl gem En = Some (Inl xn) \<longleftrightarrow>
        report_loop loads gem En = Inl xn
        \<or> ((\<exists>rows. report_loop loads gem En = Inr rows)
            \<and> (loadValidationSet pl En val_path = Some (Inl xn)
                \<or> (\<exists>d. loadValidationSet pl En val_path = Some (Inr d)
                     \<and> budget_sweep loads En d = Inl xn))))
   \<and> (np1 \<in> set things \<and> report_row loads gem1 E1 np1 = Inl x1
      \<longrightarrow> (\<exists>y. notebook_run loads pl gem1 E1 = Some (Inl y)))
   \<and> (loadValidationSet pl E2 val_path = Some (Inl x2)
      \<longrightarrow> (\<exists>y. notebook_run loads pl gem E2 = Some (Inl y)))
   \<and> (loadValidationSet pl E3 val_path = Some (Inr d3) \<and> b3 \<in> set budgets
        \<and> error loads E3 d3 b3 = Inl x3
      \<longrightarrow> (\<exists>y. notebook_run loads pl gem E3 = Some (Inl y)))
   \<and> (notebook_run loads pl gem E4 = Some (Inr rows)
      \<longrightarrow> (\<forall>np\<in>set things. \<exists>r. report_row loads gem E4 np = Inr r)
          \<and> (\<exists>d. loadValidationSet pl E4 val_path = Some (Inr d)
               \<and> (\<forall>b\<in>set budgets. \<exists>ea. error loads E4 d b = Inr ea)))"
proof (intro conjI)
  show "read_n pl n f = Some (vs, f') \<and> pl f' = Inl EOFError
      \<longrightarrow> load_loop pl f [] = Some (Inr vs)"
    by (blast intro: load_loop_read_n_EOF)
  show "read_n pl m g = Some (ws, g') \<and> pl g' = Inl e \<and> e \<noteq> EOFError
      \<longrightarrow> load_loop pl g [] = Some (Inl e)"
    by (blast intro: load_loop_read_n_other)
  show "loadValidationSet pl Ev pv = Some (Inl xv) \<longleftrightarrow>
        (files Ev pv = None \<and> xv = FileNotFoundError)
        \<or> (\<exists>c. files Ev pv = Some c \<and> load_loop pl c [] = Some (Inl xv))"
    by (rule loadValidationSet_Inl_iff)
  show "loadSummary loads Es ps = Inl xs \<longleftrightarrow>
        (files Es ps = None \<and> xs = FileNotFoundError)
        \<or> (files Es ps = Some [] \<and> xs = StopIteration)
        \<or> (\<exists>c. files Es ps = Some c \<and> c \<noteq> [] \<and> loads (readline c) = Inl xs)"
    by (rule loadSummary_Inl_iff)
  show "report_row loads gemr Er npr = Inl xr \<longleftrightarrow>
        loadSummary loads Er (expanduser Er (snd npr)) = Inl xr
        \<or> ((\<exists>s. loadSummary loads Er (expanduser Er (snd npr)) = Inr s)
            \<and> gemr (expanduser Er (snd npr)) = Inl xr)"
    by (rule report_row_Inl_iff)
  show "error loads Ee data be = Inl xe \<longleftrightarrow>
        (files Ee (expanduser Ee (baseline_path be)) = None \<and> xe = FileNotFoundError)
        \<or> (\<exists>c. files Ee (expanduser Ee (baseline_path be)) = Some c
             \<and> (loads c = Inl xe
                 \<or> (\<exists>result. loads c = Inr result
                      \<and> (py_iter result = Inl xe
                          \<or> (\<exists>rs. py_iter result = Inr rs
                               \<and> (mapM exact_flag (zip rs data) = Inl xe
                                   \<or> ((\<exists>flags. mapM exact_flag (zip rs data) = Inr flags)
                                       \<and> (mapM (\<lambda>q. getitem q ''is_correct'') rs = Inl xe
                                           \<or> (\<exists>qs. mapM (\<lambda>q. getitem q ''is_correct'') rs = Inr qs
                                                \<and> py_sum qs = Inl xe)))))))))"
    by (rule error_Inl_iff)
  show "mapM h zs = Inl xz \<longleftrightarrow>
        (\<exists>i<length zs. (\<forall>j<i. \<exists>y. h (zs ! j) = Inr y) \<and> h (zs ! i) = Inl xz)"
    by (rule mapM_Inl_iff)
  show "exact_flag (r, d) = Inl xf \<longleftrightarrow>
        getitem r ''output'' = Inl xf
        \<or> ((\<exists>v. getitem r ''output'' = Inr v) \<and> getitem d ''code'' = Inl xf)"
    by (rule exact_flag_Inl_iff)
  show "py_sum qs = Inl xq \<longleftrightarrow>
        xq = TypeError \<and> (\<exists>q\<in>set qs. (\<forall>t. q \<noteq> PBool t) \<and> (\<forall>i. q \<noteq> PInt i))"
    by (rule py_sum_Inl_iff)
  show "budget_row loads Eb db bb = Inl xb \<longleftrightarrow> error loads Eb db bb = Inl xb"
    by (rule budget_row_Inl_iff)
  show "notebook_run loads pl gem En = Some (Inl xn) \<longleftrightarrow>
        report_loop loads gem En = Inl xn
        \<or> ((\<exists>rows. report_loop loads gem En = Inr rows)
            \<and> (loadValidationSet pl En val_path = Some (Inl xn)
                \<or> (\<exists>d. loadValidationSet pl En val_path = Some (Inr d)
                     \<and> budget_sweep loads En d = Inl xn)))"
    by (rule notebook_run_Inl_iff)
  show "np1 \<in> set things \<and> report_row loads gem1 E1 np1 = Inl x1
      \<longrightarrow> (\<exists>y. notebook_run loads pl gem1 E1 = Some (Inl y))"
    by (blast intro: run_row_fails)
  show "loadValidationSet pl E2 val_path = Some (Inl x2)
      \<longrightarrow> (\<exists>y. notebook_run loads pl gem E2 = Some (Inl y))"
    by (blast intro: run_load_fails)
  show "loadValidationSet pl E3 val_path = Some (Inr d3) \<and> b3 \<in> set budgets
        \<and> error loads E3 d3 b3 = Inl x3
      \<longrightarrow> (\<exists>y. notebook_run loads pl gem E3 = Some (Inl y))"
    by (blast intro: run_budget_fails)
  show "notebook_run loads pl gem E4 = Some (Inr rows)
      \<longrightarrow> (\<forall>np\<in>set things. \<exists>r. report_row loads gem E4 np = Inr r)
          \<and> (\<exists>d. loadValidationSet pl E4 val_path = Some (Inr d)
               \<and> (\<forall>b\<in>set budgets. \<exists>ea. error loads E4 d b = Inr ea))"
    by (blast dest: run_returns_all_steps)
qed

lemma read_two: "read_n dot_records 2 ''ab.cd.'' = Some ([example_val ''ab'', example_val ''cd''], [])"
  by (simp add: numeral_2_eq_2 dot_records_def)

lemma read_one: "read_n dot_records 1 ''ab.!'' = Some ([example_val ''ab''], ''!'')"
  by (simp add: dot_records_def)

lemma dot_records_end: "dot_records [] = Inl EOFError"
  by (simp add: dot_records_def)

lemma dot_records_bad: "dot_records ''!'' = Inl (OtherError ''invalid load key'')"
  by (simp add: dot_records_def)

lemma budgets_16_32: "16 \<in> set budgets \<and> 32 \<in> set budgets"
  by (simp add: budgets_def)

text \<open>
  Claim C4 at concrete inputs. A stream of two records ends the load normally; a bad second
  record ends it with the decoder's exception. The runs below have the four reports in
  place, so that they reach the cell named: a failing \<^verbatim>\<open>get_exact_match\<close> and a second
  report that does not decode end the run in the report loop; a missing validation file
  and a bad record end it in the load; a baseline that is missing (for the second
  budget), is not JSON, holds a record without \<^verbatim>\<open>output\<close>, is a number instead of a list,
  or has a flag that is \<^verbatim>\<open>null\<close> ends it in the budget sweep, each time with the exception
  Python raises there.
\<close>

theorem only_end_of_stream_is_handled_witness:
  "load_loop dot_records ''ab.cd.'' [] = Some (Inr [example_val ''ab'', example_val ''cd''])
   \<and> load_loop dot_records ''ab.!'' [] = Some (Inl (OtherError ''invalid load key''))
   \<and> loadValidationSet dot_records missing_val_env val_path = Some (Inl FileNotFoundError)
   \<and> loadSummary json_loads bad_report_env report_path2 = Inl JSONDecodeError
   \<and> report_row json_loads failing_exact_match full_env (hd things)
       = Inl (OtherError ''no exact match'')
   \<and> error json_loads no_output_env [example_val ''ab'', example_val ''cd''] 16 = Inl (KeyError ''output'')
   \<and> mapM exact_flag
        [(pred_val ''ab'' True, example_val ''ab''), (pred_val ''cd'' True, PDict [])]
       = Inl (KeyError ''code'')
   \<and> exact_flag (pred_val ''cd'' True, PDict []) = Inl (KeyError ''code'')
   \<and> py_sum [PBool True, PNone] = Inl TypeError
   \<and> budget_row json_loads not_list_env [example_val ''ab'', example_val ''cd''] 16 = Inl TypeError
   \<and> notebook_run json_loads dot_records no_exact_match bad_pickle_env
       = Some (Inl (OtherError ''invalid load key''))
   \<and> (\<exists>y. notebook_run json_loads dot_records failing_exact_match full_env = Some (Inl y))
   \<and> (\<exists>y. notebook_run json_loads dot_records no_exact_match missing_val_env = Some (Inl y))
   \<and> (\<exists>y. notebook_run json_loads dot_records no_exact_match missing_baseline_env
          = Some (Inl y))
   \<and> (\<exists>d. loadValidationSet dot_records full_env val_path = Some (Inr d))
   \<and> notebook_run json_loads dot_records failing_exact_match full_env
       = Some (Inl (OtherError ''no exact match''))
   \<and> notebook_run json_loads dot_records no_exact_match bad_report_env
       = Some (Inl JSONDecodeError)
   \<and> notebook_run json_loads dot_records no_exact_match missing_val_env
       = Some (Inl FileNotFoundError)
   \<and> notebook_run json_loads dot_records no_exact_match bad_baseline_env
       = Some (Inl JSONDecodeError)
   \<and> notebook_run json_loads dot_records no_exact_match missing_baseline_env
       = Some (Inl FileNotFoundError)
   \<and> notebook_run json_loads dot_records no_exact_match no_output_env
       = Some (Inl (KeyError ''output''))
   \<and> notebook_run json_loads dot_records no_exact_match not_list_env = Some (Inl TypeError)
   \<and> notebook_run json_loads dot_records no_exact_match null_flag_env = Some (Inl TypeError)"
proof -
  note T = only_end_of_stream_is_handled
    [where pl = dot_records and loads = json_loads and gem = no_exact_match
      and n = 2 and f = "''ab.cd.''" and vs = "[example_val ''ab'', example_val ''cd'']" and f' = "[]"
      and m = 1 and g = "''ab.!''" and ws = "[example_val ''ab'']" and g' = "''!''"
      and e = "OtherError ''invalid load key''"
      and Ev = missing_val_env and pv = val_path and xv = FileNotFoundError
      and Es = bad_report_env and ps = report_path2 and xs = JSONDecodeError
      and gemr = failing_exact_match and Er = full_env and npr = "hd things"
      and xr = "OtherError ''no exact match''"
      and Ee = no_output_env and data = "[example_val ''ab'', example_val ''cd'']" and be = 16 and xe = "KeyError ''output''"
      and h = exact_flag
      and zs = "[(pred_val ''ab'' True, example_val ''ab''), (pred_val ''cd'' True, PDict [])]"
      and xz = "KeyError ''code''"
      and r = "pred_val ''cd'' True" and d = "PDict []" and xf = "KeyError ''code''"
      and qs = "[PBool True, PNone]" and xq = TypeError
      and Eb = not_list_env and db = "[example_val ''ab'', example_val ''cd'']" and bb = 16 and xb = TypeError
      and En = bad_pickle_env and xn = "OtherError ''invalid load key''"
      and ?np1.0 = "hd things" and ?gem1.0 = failing_exact_match and ?E1.0 = full_env
      and ?x1.0 = "OtherError ''no exact match''"
      and ?E2.0 = missing_val_env and ?x2.0 = FileNotFoundError
      and ?E3.0 = missing_baseline_env and ?d3.0 = "[example_val ''ab'', example_val ''cd'']" and ?b3.0 = 32
      and ?x3.0 = FileNotFoundError
      and ?E4.0 = full_env
      and rows = "map (\<lambda>np. ReportRow (fst np) summary_record
                        (PDict [(''exact'', PInt 0), (''total'', PInt 0)])) things
                @ map (\<lambda>b. BudgetRow b 2 1) budgets"]
  note c1 = T [THEN conjunct1]
  note c2 = T [THEN conjunct2, THEN conjunct1]
  note c3 = T [THEN conjunct2, THEN conjunct2, THEN conjunct1]
  note c4 = T [THEN conjunct2, THEN conjunct2, THEN conjunct2, THEN conjunct1]
  note c5 = T [THEN conjunct2, THEN conjunct2, THEN conjunct2, THEN conjunct2, THEN conjunct1]
  note c6 = T [THEN conjunct2, THEN conjunct2, THEN conjunct2, THEN conjunct2, THEN conjunct2, THEN conjunct1]
  note c7 = T [THEN conjunct2, THEN conjunct2, THEN conjunct2, THEN conjunct2, THEN conjunct2, THEN conjunct2, THEN conjunct1]
  note c8 = T [THEN conjunct2, THEN conjunct2, THEN conjunct2, THEN conjunct2, THEN conjunct2, THEN conjunct2, THEN conjunct2, THEN conjunct1]
  note c9 = T [THEN conjunct2, THEN conjunct2, THEN conjunct2, THEN conjunct2, THEN conjunct2, THEN conjunct2, THEN conjunct2, THEN conjunct2, THEN conjunct1]
  note c10 = T [THEN conjunct2, THEN conjunct2, THEN conjunct2, THEN conjunct2, THEN conjunct2, THEN conjunct2, THEN conjunct2, THEN conjunct2, THEN conjunct2, THEN conjunct1]
  note c11 = T [THEN conjunct2, THEN conjunct2, THEN conjunct2, THEN conjunct2, THEN conjunct2, THEN conjunct2, THEN conjunct2, THEN conjunct2, THEN conjunct2, THEN conjunct2, THEN conjunct1]
  note c12 = T [THEN conjunct2, THEN conjunct2, THEN conjunct2, THEN conjunct2, THEN conjunct2, THEN conjunct2, THEN conjunct2, THEN conjunct2, THEN conjunct2, THEN conjunct2, THEN conjunct2, THEN conjunct1]
  note c13 = T [THEN conjunct2, THEN conjunct2, THEN conjunct2, THEN conjunct2, THEN conjunct2, THEN conjunct2, THEN conjunct2, THEN conjunct2, THEN conjunct2, THEN conjunct2, THEN conjunct2, THEN conjunct2, THEN conjunct1]
  note c14 = T [THEN conjunct2, THEN conjunct2, THEN conjunct2, THEN conjunct2, THEN conjunct2, THEN conjunct2, THEN conjunct2, THEN conjunct2, THEN conjunct2, THEN conjunct2, THEN conjunct2, THEN conjunct2, THEN conjunct2, THEN conjunct1]
  note c15 = T [THEN conjunct2, THEN conjunct2, THEN conjunct2, THEN conjunct2, THEN conjunct2, THEN conjunct2, THEN conjunct2, THEN conjunct2, THEN conjunct2, THEN conjunct2, THEN conjunct2, THEN conjunct2, THEN conjunct2, THEN conjunct2]
  have w1: "load_loop dot_records ''ab.cd.'' [] = Some (Inr [example_val ''ab'', example_val ''cd''])"
    using c1 read_two dot_records_end by simp
  have ne: "OtherError ''invalid load key'' \<noteq> EOFError" by simp
  have w2: "load_loop dot_records ''ab.!'' [] = Some (Inl (OtherError ''invalid load key''))"
    using c2 read_one dot_records_bad ne by simp
  have w3: "loadValidationSet dot_records missing_val_env val_path = Some (Inl FileNotFoundError)"
    unfolding c3 by (simp add: missing_val_env_def reports_env_other good_reports_val)
  have w4: "loadSummary json_loads bad_report_env report_path2 = Inl JSONDecodeError"
    unfolding c4
    by (simp add: bad_report_env_def env_of_def report_path_def report_path2_def
        json_not_json_whole)
  have w5: "report_row json_loads failing_exact_match full_env (hd things)
       = Inl (OtherError ''no exact match'')"
    unfolding c5
    using loadSummary_good [OF reports_env_report [OF hd_things_member]]
    by (simp add: full_env_reports failing_exact_match_def)
  have w6: "error json_loads no_output_env [example_val ''ab'', example_val ''cd''] 16 = Inl (KeyError ''output'')"
    unfolding c6
    by (simp add: no_output_env_def reports_env_16 json_no_output exact_flag_def)
  have w7: "mapM exact_flag
        [(pred_val ''ab'' True, example_val ''ab''), (pred_val ''cd'' True, PDict [])]
       = Inl (KeyError ''code'')"
    unfolding c7
    by (intro exI [of _ 1]) (simp add: exact_flag_def pred_val_def example_val_def)
  have w8: "exact_flag (pred_val ''cd'' True, PDict []) = Inl (KeyError ''code'')"
    unfolding c8 by (simp add: pred_val_def)
  have w9: "py_sum [PBool True, PNone] = Inl TypeError"
    unfolding c9 by simp
  have w10: "budget_row json_loads not_list_env [example_val ''ab'', example_val ''cd''] 16 = Inl TypeError"
    unfolding c10 by (rule error_not_list)
  have w11: "notebook_run json_loads dot_records no_exact_match bad_pickle_env
       = Some (Inl (OtherError ''invalid load key''))"
    unfolding c11 using load_bad_pickle
    by (simp add: bad_pickle_env_def report_loop_good)
  have w12: "\<exists>y. notebook_run json_loads dot_records failing_exact_match full_env = Some (Inl y)"
    using c12 hd_things_member report_row_gem_fails by simp
  have w13: "\<exists>y. notebook_run json_loads dot_records no_exact_match missing_val_env = Some (Inl y)"
    using c13 load_missing_val by simp
  have l14: "loadValidationSet dot_records missing_baseline_env val_path = Some (Inr [example_val ''ab'', example_val ''cd''])"
    unfolding missing_baseline_env_def by (rule load_two)
  have w14: "\<exists>y. notebook_run json_loads dot_records no_exact_match missing_baseline_env
          = Some (Inl y)"
    using c14 l14 budgets_16_32 error_missing_baseline_32 by simp
  have w15: "\<exists>d. loadValidationSet dot_records full_env val_path = Some (Inr d)"
    using c15 notebook_run_full_env by blast
  have gem_loop: "report_loop json_loads failing_exact_match full_env
      = Inl (OtherError ''no exact match'')"
  proof -
    have "things = hd things # tl things" by (simp add: things_def)
    then have "report_loop json_loads failing_exact_match full_env
        = mapM (report_row json_loads failing_exact_match full_env) (hd things # tl things)"
      unfolding report_loop_def by simp
    with report_row_gem_fails show ?thesis by (simp del: list.sel)
  qed
  have r1: "notebook_run json_loads dot_records failing_exact_match full_env
       = Some (Inl (OtherError ''no exact match''))"
    unfolding only_end_of_stream_is_handled
      [where pl = dot_records and loads = json_loads and gem = failing_exact_match and En = full_env and xn = "OtherError ''no exact match''",
       THEN conjunct2, THEN conjunct2, THEN conjunct2, THEN conjunct2, THEN conjunct2, THEN conjunct2, THEN conjunct2, THEN conjunct2, THEN conjunct2, THEN conjunct2, THEN conjunct1]
    by (simp add: gem_loop)
  have r2: "notebook_run json_loads dot_records no_exact_match bad_report_env
       = Some (Inl JSONDecodeError)"
    unfolding only_end_of_stream_is_handled
      [where pl = dot_records and loads = json_loads and gem = no_exact_match and En = bad_report_env and xn = "JSONDecodeError",
       THEN conjunct2, THEN conjunct2, THEN conjunct2, THEN conjunct2, THEN conjunct2, THEN conjunct2, THEN conjunct2, THEN conjunct2, THEN conjunct2, THEN conjunct2, THEN conjunct1]
    by (simp add: bad_report_loop)
  have r3: "notebook_run json_loads dot_records no_exact_match missing_val_env
       = Some (Inl FileNotFoundError)"
    unfolding only_end_of_stream_is_handled
      [where pl = dot_records and loads = json_loads and gem = no_exact_match and En = missing_val_env and xn = "FileNotFoundError",
       THEN conjunct2, THEN conjunct2, THEN conjunct2, THEN conjunct2, THEN conjunct2, THEN conjunct2, THEN conjunct2, THEN conjunct2, THEN conjunct2, THEN conjunct2, THEN conjunct1]
    using load_missing_val by (simp add: missing_val_env_def report_loop_good)
  have r4: "notebook_run json_loads dot_records no_exact_match bad_baseline_env
       = Some (Inl JSONDecodeError)"
    unfolding only_end_of_stream_is_handled
      [where pl = dot_records and loads = json_loads and gem = no_exact_match and En = bad_baseline_env and xn = "JSONDecodeError",
       THEN conjunct2, THEN conjunct2, THEN conjunct2, THEN conjunct2, THEN conjunct2, THEN conjunct2, THEN conjunct2, THEN conjunct2, THEN conjunct2, THEN conjunct2, THEN conjunct1]
    using load_two [of "[(path16, ''not json'')]"] sweep_first_fails [OF error_bad_baseline]
    by (simp add: bad_baseline_env_def report_loop_good)
  have r5: "notebook_run json_loads dot_records no_exact_match missing_baseline_env
       = Some (Inl FileNotFoundError)"
    unfolding only_end_of_stream_is_handled
      [where pl = dot_records and loads = json_loads and gem = no_exact_match and En = missing_baseline_env and xn = "FileNotFoundError",
       THEN conjunct2, THEN conjunct2, THEN conjunct2, THEN conjunct2, THEN conjunct2, THEN conjunct2, THEN conjunct2, THEN conjunct2, THEN conjunct2, THEN conjunct2, THEN conjunct1]
    using l14 sweep_second_fails [OF error_missing_baseline_16 error_missing_baseline_32]
    by (simp add: missing_baseline_env_def report_loop_good)
  have r6: "notebook_run json_loads dot_records no_exact_match no_output_env
       = Some (Inl (KeyError ''output''))"
    unfolding only_end_of_stream_is_handled
      [where pl = dot_records and loads = json_loads and gem = no_exact_match and En = no_output_env and xn = "KeyError ''output''",
       THEN conjunct2, THEN conjunct2, THEN conjunct2, THEN conjunct2, THEN conjunct2, THEN conjunct2, THEN conjunct2, THEN conjunct2, THEN conjunct2, THEN conjunct2, THEN conjunct1]
    using load_two [of "[(path16, doc_no_output)]"] sweep_first_fails [OF error_no_output]
    by (simp add: no_output_env_def report_loop_good)
  have r7: "notebook_run json_loads dot_records no_exact_match not_list_env = Some (Inl TypeError)"
    unfolding only_end_of_stream_is_handled
      [where pl = dot_records and loads = json_loads and gem = no_exact_match and En = not_list_env and xn = "TypeError",
       THEN conjunct2, THEN conjunct2, THEN conjunct2, THEN conjunct2, THEN conjunct2, THEN conjunct2, THEN conjunct2, THEN conjunct2, THEN conjunct2, THEN conjunct2, THEN conjunct1]
    using load_two [of "[(path16, ''3'')]"] sweep_first_fails [OF error_not_list]
    by (simp add: not_list_env_def report_loop_good)
  have r8: "notebook_run json_loads dot_records no_exact_match null_flag_env = Some (Inl TypeError)"
    unfolding only_end_of_stream_is_handled
      [where pl = dot_records and loads = json_loads and gem = no_exact_match and En = null_flag_env and xn = "TypeError",
       THEN conjunct2, THEN conjunct2, THEN conjunct2, THEN conjunct2, THEN conjunct2, THEN conjunct2, THEN conjunct2, THEN conjunct2, THEN conjunct2, THEN conjunct2, THEN conjunct1]
    using load_two [of "[(path16, doc_null_flag)]"] sweep_first_fails [OF error_null_flag]
    by (simp add: null_flag_env_def report_loop_good)
  from w1 w2 w3 w4 w5 w6 w7 w8 w9 w10 w11 w12 w13 w14 w15 r1 r2 r3 r4 r5 r6 r7 r8
  show ?thesis by blast
qed

end
